theory Spec2Isabelle
  imports Complex_Main "HOL-Library.Multiset"
begin

section \<open>FireResume AI: scoring, ranking, layout allocation, ATS compliance, JD match report\<close>

text \<open>
  A shallow embedding of the deterministic core of the resume generator (the module
  \<^verbatim>\<open>generator\<close>, in the sources under \<^verbatim>\<open>src/lib/fireresume-ai/index.ts\<close>: relevance scoring,
  ranking, \<^verbatim>\<open>allocateLayout\<close>, the generator's own \<^verbatim>\<open>checkATSCompliance\<close>,
  \<^verbatim>\<open>generateJDMatchReport\<close>) and of the comprehensive checker (the module \<^verbatim>\<open>ats-compliance\<close>,
  in the sources as \<^verbatim>\<open>unnamed/part_000\<close>: \<^verbatim>\<open>ATS_RULES\<close>, the validation predicates,
  \<^verbatim>\<open>checkATSCompliance\<close>, \<^verbatim>\<open>quickATSCheck\<close>). The types are those of \<^verbatim>\<open>unnamed/part_004\<close>.

  Conventions of the embedding.
  \<^item> A JavaScript string is a \<open>string\<close>; a \<open>char\<close> stands for the code unit of the same
    number, so the strings of the model are those over U+0000 .. U+00FF.
  \<^item> A JavaScript number is an exact rational (\<open>rat\<close>), or an \<open>int\<close>/\<open>nat\<close> where the
    source only ever holds a count or a line number. IEEE rounding is not modelled.
  \<^item> An optional field (\<^verbatim>\<open>phone?: string\<close>) is an \<open>option\<close>.
  \<^item> Record fields carry a short prefix where two interfaces of the source share a
    field name (\<^verbatim>\<open>id\<close>, \<^verbatim>\<open>title\<close>, \<^verbatim>\<open>bullets\<close>, \<^verbatim>\<open>skills\<close>), since a field is a global
    selector in HOL. Fields that none of the embedded functions reads are left out.
\<close>

subsection \<open>Strings\<close>

definition lowerChar :: "char \<Rightarrow> char" where
  "lowerChar c =
     (let n = (of_char c :: nat)
      in if (65 \<le> n \<and> n \<le> 90) \<or> (192 \<le> n \<and> n \<le> 222 \<and> n \<noteq> 215)
         then char_of (n + 32) else c)"

text \<open>\<^verbatim>\<open>String.prototype.toLowerCase\<close> on code units below 256: A-Z and the Latin-1 capitals.\<close>

definition toLowerCase :: "string \<Rightarrow> string" where
  "toLowerCase s = map lowerChar s"

fun startsWith :: "string \<Rightarrow> string \<Rightarrow> bool" where
  "startsWith s [] = True"
| "startsWith [] (c # cs) = False"
| "startsWith (d # ds) (c # cs) = (d = c \<and> startsWith ds cs)"

text \<open>\<^verbatim>\<open>hay.includes(needle)\<close>: the needle occurs as a contiguous substring.\<close>

fun js_includes :: "string \<Rightarrow> string \<Rightarrow> bool" where
  "js_includes [] needle = (needle = [])"
| "js_includes (c # cs) needle = (startsWith (c # cs) needle \<or> js_includes cs needle)"

text \<open>\<^verbatim>\<open>parts.join(sep)\<close>.\<close>

fun js_join :: "string \<Rightarrow> string list \<Rightarrow> string" where
  "js_join sep [] = []"
| "js_join sep [x] = x"
| "js_join sep (x # y # ys) = x @ sep @ js_join sep (y # ys)"

subsection \<open>Data model (\<^verbatim>\<open>types/fireresume-ai\<close>)\<close>

datatype Importance = Required | Preferred | NiceToHave

record SkillCluster =
  cluster_category :: string
  cluster_skills :: "string list"
  importance :: Importance

record ImpactTheme =
  theme :: string
  theme_keywords :: "string list"
  weight :: rat

record JDAnalysis =
  jobTitle :: string
  roleType :: string
  seniorityLevel :: string
  domain :: string
  skillClusters :: "SkillCluster list"
  primaryKeywords :: "string list"
  secondaryKeywords :: "string list"
  impactThemes :: "ImpactTheme list"

record Experience =
  exp_id :: string
  exp_title :: string
  exp_company :: string
  startDate :: string
  endDate :: string
  exp_bullets :: "string list"
  exp_relevanceScore :: "rat option"

record Project =
  proj_id :: string
  proj_title :: string
  techStack :: "string list"
  link :: "string option"
  proj_bullets :: "string list"
  proj_relevanceScore :: "rat option"

record Education =
  edu_id :: string
  degree :: string
  institution :: string
  graduationDate :: string

record SkillCategory =
  category :: string
  cat_skills :: "string list"

record ContactInfo =
  fullName :: string
  email :: string
  phone :: "string option"

record ResumeData =
  rd_contact :: ContactInfo
  rd_summary :: "string option"
  rd_experiences :: "Experience list"
  rd_projects :: "Project list"
  rd_education :: "Education list"
  rd_skills :: "SkillCategory list"

text \<open>A \<^verbatim>\<open>Record<string, number>\<close> is an association list in insertion order; writing an
  existing key replaces its value in place.\<close>

type_synonym scores = "(string \<times> rat) list"

fun setScore :: "string \<Rightarrow> rat \<Rightarrow> scores \<Rightarrow> scores" where
  "setScore k v [] = [(k, v)]"
| "setScore k v ((k', v') # rest) =
     (if k = k' then (k, v) # rest else (k', v') # setScore k v rest)"

record RelevanceMap =
  rm_experiences :: scores
  rm_projects :: scores
  rm_skills :: scores
  overallMatch :: int

subsection \<open>Relevance scoring\<close>

definition allKeywords :: "JDAnalysis \<Rightarrow> string list" where
  "allKeywords jd = map toLowerCase (primaryKeywords jd @ secondaryKeywords jd)"

definition skillKeywords :: "JDAnalysis \<Rightarrow> string list" where
  "skillKeywords jd = concat (map (\<lambda>c. map toLowerCase (cluster_skills c)) (skillClusters jd))"

text \<open>The divisor \<^verbatim>\<open>Math.max(allKeywords.length, 1)\<close> of both keyword scores.\<close>

definition keywordDivisor :: "JDAnalysis \<Rightarrow> nat" where
  "keywordDivisor jd = max (length (allKeywords jd)) 1"

text \<open>The loop \<^verbatim>\<open>for (const keyword of [...allKeywords, ...skillKeywords])\<close> counting the
  keywords that the lower-cased, space-joined bullets include.\<close>

definition keywordMatches :: "string \<Rightarrow> JDAnalysis \<Rightarrow> nat" where
  "keywordMatches allBullets jd =
     fold (\<lambda>keyword n. if js_includes allBullets keyword then n + 1 else n)
          (allKeywords jd @ skillKeywords jd) 0"

text \<open>The nested loop over the impact themes and their keywords, adding to the score.\<close>

definition themeLoop :: "string \<Rightarrow> ImpactTheme list \<Rightarrow> rat \<Rightarrow> rat" where
  "themeLoop allBullets themes score =
     fold (\<lambda>th s. fold (\<lambda>keyword s'.
                          if js_includes allBullets (toLowerCase keyword)
                          then s' + 5 * weight th else s')
                       (theme_keywords th) s)
          themes score"

definition calculateExperienceRelevance :: "'a Experience_scheme \<Rightarrow> JDAnalysis \<Rightarrow> rat" where
  "calculateExperienceRelevance experience jd =
     (let score0 = (0 :: rat);
          maxScore = (100 :: rat);
          titleLower = toLowerCase (exp_title experience);
          roleTypeLower = toLowerCase (roleType jd);
          score1 = (if js_includes titleLower roleTypeLower \<or> js_includes roleTypeLower titleLower
                    then score0 + 20 else score0);
          allBullets = toLowerCase (js_join '' '' (exp_bullets experience));
          keywordScore = min 40 (of_nat (keywordMatches allBullets jd)
                                   / of_nat (keywordDivisor jd) * 60);
          score2 = score1 + keywordScore;
          score3 = themeLoop allBullets (impactThemes jd) score2
      in min score3 maxScore)"

text \<open>The divisor \<^verbatim>\<open>Math.max(project.techStack.length, 1)\<close> of the tech-stack score.\<close>

definition techDivisor :: "'a Project_scheme \<Rightarrow> nat" where
  "techDivisor project = max (length (techStack project)) 1"

definition techMatches :: "'a Project_scheme \<Rightarrow> JDAnalysis \<Rightarrow> nat" where
  "techMatches project jd =
     fold (\<lambda>tech n. if tech \<in> set (skillKeywords jd) \<or> tech \<in> set (allKeywords jd)
                     then n + 1 else n)
          (map toLowerCase (techStack project)) 0"

text \<open>\<^verbatim>\<open>if (project.link)\<close>: a link that is present and not the empty string.\<close>

definition truthy :: "string option \<Rightarrow> bool" where
  "truthy s = (case s of None \<Rightarrow> False | Some t \<Rightarrow> t \<noteq> [])"

definition calculateProjectRelevance :: "'a Project_scheme \<Rightarrow> JDAnalysis \<Rightarrow> rat" where
  "calculateProjectRelevance project jd =
     (let score0 = (0 :: rat);
          maxScore = (100 :: rat);
          techScore = min 50 (of_nat (techMatches project jd)
                                / of_nat (techDivisor project) * 70);
          score1 = score0 + techScore;
          allBullets = toLowerCase (js_join '' '' (proj_bullets project));
          keywordScore = min 30 (of_nat (keywordMatches allBullets jd)
                                   / of_nat (keywordDivisor jd) * 40);
          score2 = score1 + keywordScore;
          score3 = (if truthy (link project) then score2 + 10 else score2)
      in min score3 maxScore)"

text \<open>The skill score of \<^verbatim>\<open>mapJDToProfile\<close>: 100 when the lower-cased skill is one of the
  job's skill tokens, else 0.\<close>

definition skillScore :: "JDAnalysis \<Rightarrow> string \<Rightarrow> rat" where
  "skillScore jd skill = (if toLowerCase skill \<in> set (skillKeywords jd) then 100 else 0)"

text \<open>\<^verbatim>\<open>Math.round\<close>: to the nearest integer, a half towards plus infinity.\<close>

definition js_round :: "rat \<Rightarrow> int" where
  "js_round x = \<lfloor>x + 1 / 2\<rfloor>"

text \<open>The mean of the values of a table, \<^verbatim>\<open>sum / Math.max(count, 1) || 0\<close>: the \<^verbatim>\<open>|| 0\<close> only
  replaces a quotient that is not a number, which a divisor of at least 1 never gives.\<close>

definition average :: "scores \<Rightarrow> rat" where
  "average sc = sum_list (map snd sc) / of_nat (max (length sc) 1)"

definition mapJDToProfile :: "JDAnalysis \<Rightarrow> ResumeData \<Rightarrow> RelevanceMap" where
  "mapJDToProfile jd resumeData =
     (let experienceScores =
            fold (\<lambda>e m. setScore (exp_id e) (calculateExperienceRelevance e jd) m)
                 (rd_experiences resumeData) [];
          projectScores =
            fold (\<lambda>p m. setScore (proj_id p) (calculateProjectRelevance p jd) m)
                 (rd_projects resumeData) [];
          allSkills = concat (map cat_skills (rd_skills resumeData));
          skillScores = fold (\<lambda>skill m. setScore skill (skillScore jd skill) m) allSkills [];
          avgExperience = average experienceScores;
          avgProject = average projectScores;
          matchedSkills = length (filter (\<lambda>kv. snd kv > 0) skillScores);
          skillMatchRate = of_nat matchedSkills / of_nat (max (length allSkills) 1) * 100
      in \<lparr> rm_experiences = experienceScores,
           rm_projects = projectScores,
           rm_skills = skillScores,
           overallMatch = js_round (avgExperience * (1 / 2) + avgProject * (1 / 5)
                                      + skillMatchRate * (3 / 10)) \<rparr>)"

subsection \<open>Ranking\<close>

text \<open>\<^verbatim>\<open>relevanceMap.experiences[id] || 0\<close>: a missing entry counts as 0.\<close>

definition scoreOf :: "scores \<Rightarrow> string \<Rightarrow> rat" where
  "scoreOf m k = (case map_of m k of None \<Rightarrow> 0 | Some v \<Rightarrow> v)"

text \<open>\<^verbatim>\<open>Array.prototype.sort(compare)\<close>. ECMAScript requires the sort to be stable, and the
  comparators of this program are consistent (a difference of two numbers), so the result
  is the one a stable insertion sort computes: an element goes in front of the first
  element it does not compare greater than.\<close>

fun insertBy :: "('a \<Rightarrow> 'a \<Rightarrow> rat) \<Rightarrow> 'a \<Rightarrow> 'a list \<Rightarrow> 'a list" where
  "insertBy compare a [] = [a]"
| "insertBy compare a (b # bs) =
     (if compare a b \<le> 0 then a # b # bs else b # insertBy compare a bs)"

definition js_sort :: "('a \<Rightarrow> 'a \<Rightarrow> rat) \<Rightarrow> 'a list \<Rightarrow> 'a list" where
  "js_sort compare xs = foldr (insertBy compare) xs []"

definition rankExperiences ::
    "'a Experience_scheme list \<Rightarrow> RelevanceMap \<Rightarrow> 'a Experience_scheme list" where
  "rankExperiences experiences relevanceMap =
     js_sort (\<lambda>a b. let scoreA = scoreOf (rm_experiences relevanceMap) (exp_id a);
                        scoreB = scoreOf (rm_experiences relevanceMap) (exp_id b)
                    in scoreB - scoreA)
             experiences"

definition rankProjects ::
    "'a Project_scheme list \<Rightarrow> RelevanceMap \<Rightarrow> 'a Project_scheme list" where
  "rankProjects projects relevanceMap =
     js_sort (\<lambda>a b. let scoreA = scoreOf (rm_projects relevanceMap) (proj_id a);
                        scoreB = scoreOf (rm_projects relevanceMap) (proj_id b)
                    in scoreB - scoreA)
             projects"

text \<open>\<^verbatim>\<open>xs.slice(0, n)\<close> for an integer \<open>n\<close>: a negative end counts from the end of the array.\<close>

definition js_slice0 :: "'a list \<Rightarrow> int \<Rightarrow> 'a list" where
  "js_slice0 xs n = (if 0 \<le> n then take (nat n) xs else take (nat (int (length xs) + n)) xs)"

definition selectTopProjects ::
    "'a Project_scheme list \<Rightarrow> int \<Rightarrow> RelevanceMap \<Rightarrow> 'a Project_scheme list" where
  "selectTopProjects projects maxCount relevanceMap =
     js_slice0 (rankProjects projects relevanceMap) maxCount"

subsection \<open>Layout allocation\<close>

definition LINES_PER_PAGE :: int where "LINES_PER_PAGE = 55"
definition HEADER_LINES :: int where "HEADER_LINES = 6"
definition SUMMARY_LINES_SHORT :: int where "SUMMARY_LINES_SHORT = 2"
definition SUMMARY_LINES_MEDIUM :: int where "SUMMARY_LINES_MEDIUM = 3"
definition SUMMARY_LINES_LONG :: int where "SUMMARY_LINES_LONG = 4"
definition SKILLS_LINES_BASE :: int where "SKILLS_LINES_BASE = 3"
definition EXPERIENCE_HEADER_LINES :: int where "EXPERIENCE_HEADER_LINES = 2"
definition BULLET_LINES :: int where "BULLET_LINES = 2"
definition PROJECT_HEADER_LINES :: int where "PROJECT_HEADER_LINES = 1"
definition EDUCATION_LINES :: int where "EDUCATION_LINES = 3"

text \<open>\<^verbatim>\<open>pageCount: 1 | 2\<close>.\<close>

datatype PageCount = OnePage | TwoPages

fun pages :: "PageCount \<Rightarrow> int" where
  "pages OnePage = 1"
| "pages TwoPages = 2"

datatype SummaryLength = Short | Medium | Long

record IncludeSections =
  inc_summary :: bool
  inc_skills :: bool
  inc_experience :: bool
  inc_projects :: bool
  inc_education :: bool
  inc_certifications :: bool
  inc_publications :: bool
  inc_awards :: bool

record ResumeConfig =
  pageCount :: PageCount
  includeSections :: IncludeSections
  maxBulletsPerExperience :: int
  maxProjects :: int
  summaryLength :: SummaryLength

datatype SectionType =
  HeaderSection | SummarySection | SkillsSection | ExperienceSection | ProjectsSection
  | EducationSection | CertificationsSection | PublicationsSection | AwardsSection

record LayoutItem =
  item_id :: string
  bulletCount :: int

record LayoutSection =
  sec_type :: SectionType
  allocatedLines :: int
  items :: "LayoutItem list option"

datatype CompressionLevel = NoCompression | Light | Moderate | Aggressive

record LayoutPlan =
  plan_pageCount :: PageCount
  sections :: "LayoutSection list"
  totalLines :: int
  compressionLevel :: CompressionLevel

text \<open>The state of \<^verbatim>\<open>allocateLayout\<close>: the sections pushed so far and \<^verbatim>\<open>usedLines\<close>.\<close>

type_synonym layoutState = "LayoutSection list \<times> int"

definition summaryLines :: "ResumeConfig \<Rightarrow> int" where
  "summaryLines config =
     (if summaryLength config = Short then SUMMARY_LINES_SHORT
      else if summaryLength config = Medium then SUMMARY_LINES_MEDIUM
      else SUMMARY_LINES_LONG)"

definition skillLines :: "ResumeData \<Rightarrow> int" where
  "skillLines resumeData = min (SKILLS_LINES_BASE + int (length (rd_skills resumeData) div 2)) 6"

text \<open>Header, summary and skills: the state when the remaining space is computed.\<close>

definition allocateTop :: "ResumeData \<Rightarrow> ResumeConfig \<Rightarrow> layoutState" where
  "allocateTop resumeData config =
     (let st0 = ([\<lparr> sec_type = HeaderSection, allocatedLines = HEADER_LINES, items = None \<rparr>],
                 0 + HEADER_LINES);
          st1 = (if inc_summary (includeSections config)
                 then (fst st0 @ [\<lparr> sec_type = SummarySection,
                                      allocatedLines = summaryLines config, items = None \<rparr>],
                       snd st0 + summaryLines config)
                 else st0);
          st2 = (if inc_skills (includeSections config)
                 then (fst st1 @ [\<lparr> sec_type = SkillsSection,
                                      allocatedLines = skillLines resumeData, items = None \<rparr>],
                       snd st1 + skillLines resumeData)
                 else st1)
      in st2)"

definition educationLines :: "ResumeData \<Rightarrow> ResumeConfig \<Rightarrow> int" where
  "educationLines resumeData config =
     (if inc_education (includeSections config)
      then int (length (rd_education resumeData)) * EDUCATION_LINES else 0)"

definition remainingLines :: "ResumeData \<Rightarrow> ResumeConfig \<Rightarrow> int" where
  "remainingLines resumeData config =
     pages (pageCount config) * LINES_PER_PAGE - snd (allocateTop resumeData config)
       - educationLines resumeData config - 2"

text \<open>\<^verbatim>\<open>Math.floor(remainingLines * 0.7)\<close>, over the rationals. (For the line counts that one
  or two pages give, the IEEE product floors to another integer at 90 only, to 62 instead
  of 63.)\<close>

definition targetExperienceLines :: "int \<Rightarrow> int" where
  "targetExperienceLines remaining = \<lfloor>(of_int remaining :: rat) * (7 / 10)\<rfloor>"

text \<open>The bullets an experience is given, and the lines it then takes.\<close>

definition expBulletCount :: "ResumeConfig \<Rightarrow> 'a Experience_scheme \<Rightarrow> int" where
  "expBulletCount config xp = min (maxBulletsPerExperience config) (int (length (exp_bullets xp)))"

definition totalExpLines :: "ResumeConfig \<Rightarrow> 'a Experience_scheme \<Rightarrow> int" where
  "totalExpLines config xp =
     (let headerLines = EXPERIENCE_HEADER_LINES;
          maxBullets = expBulletCount config xp;
          bulletLines = maxBullets * BULLET_LINES
      in headerLines + bulletLines)"

text \<open>The experience loop, on \<open>(experienceItems, experienceLines)\<close>; the \<^verbatim>\<open>else break\<close> ends it
  at the first experience that does not fit.\<close>

fun experienceLoop ::
    "ResumeConfig \<Rightarrow> int \<Rightarrow> 'a Experience_scheme list \<Rightarrow> LayoutItem list \<times> int
      \<Rightarrow> LayoutItem list \<times> int" where
  "experienceLoop config target [] st = st"
| "experienceLoop config target (xp # rest) st =
     (if snd st + totalExpLines config xp \<le> target
      then experienceLoop config target rest
             (fst st @ [\<lparr> item_id = exp_id xp, bulletCount = expBulletCount config xp \<rparr>],
              snd st + totalExpLines config xp)
      else st)"

definition allocateExperience ::
    "ResumeData \<Rightarrow> ResumeConfig \<Rightarrow> RelevanceMap \<Rightarrow> layoutState \<Rightarrow> layoutState" where
  "allocateExperience resumeData config relevanceMap st =
     (if inc_experience (includeSections config)
      then (let target = targetExperienceLines (remainingLines resumeData config);
                res = experienceLoop config target
                        (rankExperiences (rd_experiences resumeData) relevanceMap) ([], 0)
            in (fst st @ [\<lparr> sec_type = ExperienceSection, allocatedLines = snd res,
                             items = Some (fst res) \<rparr>],
                snd st + snd res))
      else st)"

definition projBulletCount :: "'a Project_scheme \<Rightarrow> int" where
  "projBulletCount proj = min 2 (int (length (proj_bullets proj)))"

definition totalProjLines :: "'a Project_scheme \<Rightarrow> int" where
  "totalProjLines proj =
     (let headerLines = PROJECT_HEADER_LINES;
          maxBullets = projBulletCount proj;
          bulletLines = maxBullets * BULLET_LINES
      in headerLines + bulletLines)"

text \<open>\<^verbatim>\<open>Math.min(remainingLines - (usedLines - HEADER_LINES), config.maxProjects * 4)\<close>, with
  \<^verbatim>\<open>usedLines\<close> as it stands after the experience section.\<close>

definition targetProjectLines :: "int \<Rightarrow> int \<Rightarrow> ResumeConfig \<Rightarrow> int" where
  "targetProjectLines remaining usedLines config =
     min (remaining - (usedLines - HEADER_LINES)) (maxProjects config * 4)"

text \<open>The project loop, on \<open>(projectItems, projectLines)\<close>; it has no \<^verbatim>\<open>break\<close>.\<close>

definition projectLoop ::
    "int \<Rightarrow> 'a Project_scheme list \<Rightarrow> LayoutItem list \<times> int \<Rightarrow> LayoutItem list \<times> int" where
  "projectLoop target projs st =
     fold (\<lambda>proj st'.
             if snd st' + totalProjLines proj \<le> target
             then (fst st' @ [\<lparr> item_id = proj_id proj, bulletCount = projBulletCount proj \<rparr>],
                   snd st' + totalProjLines proj)
             else st')
          projs st"

definition allocateProjects ::
    "ResumeData \<Rightarrow> ResumeConfig \<Rightarrow> RelevanceMap \<Rightarrow> layoutState \<Rightarrow> layoutState" where
  "allocateProjects resumeData config relevanceMap st =
     (let rankedProjects = rankProjects (rd_projects resumeData) relevanceMap
      in if inc_projects (includeSections config) \<and> length rankedProjects > 0
         then (let target = targetProjectLines (remainingLines resumeData config) (snd st) config;
                   res = projectLoop target (js_slice0 rankedProjects (maxProjects config)) ([], 0)
               in if length (fst res) > 0
                  then (fst st @ [\<lparr> sec_type = ProjectsSection, allocatedLines = snd res,
                                       items = Some (fst res) \<rparr>],
                        snd st + snd res)
                  else st)
         else st)"

definition allocateEducation :: "ResumeData \<Rightarrow> ResumeConfig \<Rightarrow> layoutState \<Rightarrow> layoutState" where
  "allocateEducation resumeData config st =
     (if inc_education (includeSections config)
      then (fst st @ [\<lparr> sec_type = EducationSection,
                          allocatedLines = educationLines resumeData config, items = None \<rparr>],
            snd st + educationLines resumeData config)
      else st)"

definition compressionOf :: "int \<Rightarrow> int \<Rightarrow> CompressionLevel" where
  "compressionOf usedLines budget =
     (let utilizationRate = (of_int usedLines :: rat) / of_int budget
      in if utilizationRate > 11 / 10 then Aggressive
         else if utilizationRate > 1 then Moderate
         else if utilizationRate > 95 / 100 then Light
         else NoCompression)"

definition allocateLayout :: "ResumeData \<Rightarrow> ResumeConfig \<Rightarrow> RelevanceMap \<Rightarrow> LayoutPlan" where
  "allocateLayout resumeData config relevanceMap =
     (let budget = pages (pageCount config) * LINES_PER_PAGE;
          st = allocateEducation resumeData config
                 (allocateProjects resumeData config relevanceMap
                    (allocateExperience resumeData config relevanceMap
                       (allocateTop resumeData config)))
      in \<lparr> plan_pageCount = pageCount config,
           sections = fst st,
           totalLines = snd st,
           compressionLevel = compressionOf (snd st) budget \<rparr>)"

subsection \<open>Regular expressions\<close>

text \<open>The regular expressions of the source are data of the model. \<^verbatim>\<open>RegExp.prototype.test\<close>
  only asks whether some substring matches, so the language of the expression decides it;
  matching is by derivatives.\<close>

datatype rx = Never | Empty | OneOf "char list" | Then rx rx | Or rx rx | Many rx

fun nullable :: "rx \<Rightarrow> bool" where
  "nullable Never = False"
| "nullable Empty = True"
| "nullable (OneOf cs) = False"
| "nullable (Then a b) = (nullable a \<and> nullable b)"
| "nullable (Or a b) = (nullable a \<or> nullable b)"
| "nullable (Many a) = True"

fun deriv :: "char \<Rightarrow> rx \<Rightarrow> rx" where
  "deriv c Never = Never"
| "deriv c Empty = Never"
| "deriv c (OneOf cs) = (if c \<in> set cs then Empty else Never)"
| "deriv c (Then a b) =
     (if nullable a then Or (Then (deriv c a) b) (deriv c b) else Then (deriv c a) b)"
| "deriv c (Or a b) = Or (deriv c a) (deriv c b)"
| "deriv c (Many a) = Then (deriv c a) (Many a)"

text \<open>The whole string matches (an expression anchored by \<^verbatim>\<open>^\<close> and \<^verbatim>\<open>$\<close>).\<close>

fun rx_matches :: "rx \<Rightarrow> string \<Rightarrow> bool" where
  "rx_matches r [] = nullable r"
| "rx_matches r (c # cs) = rx_matches (deriv c r) cs"

text \<open>Some prefix of the string matches.\<close>

fun rx_prefix :: "rx \<Rightarrow> string \<Rightarrow> bool" where
  "rx_prefix r [] = nullable r"
| "rx_prefix r (c # cs) = (nullable r \<or> rx_prefix (deriv c r) cs)"

text \<open>\<^verbatim>\<open>r.test(s)\<close> for an expression without anchors: a match may start anywhere.\<close>

fun rx_test :: "rx \<Rightarrow> string \<Rightarrow> bool" where
  "rx_test r [] = nullable r"
| "rx_test r (c # cs) = (rx_prefix r (c # cs) \<or> rx_test r cs)"

definition lit :: "string \<Rightarrow> rx" where
  "lit s = foldr (\<lambda>c r. Then (OneOf [c]) r) s Empty"

definition upperChar :: "char \<Rightarrow> char" where
  "upperChar c =
     (let n = (of_char c :: nat) in if 97 \<le> n \<and> n \<le> 122 then char_of (n - 32) else c)"

text \<open>A literal under the flag \<^verbatim>\<open>i\<close> (the literals of the source are ASCII letters).\<close>

definition litI :: "string \<Rightarrow> rx" where
  "litI s = foldr (\<lambda>c r. Then (OneOf [lowerChar c, upperChar c]) r) s Empty"

definition some :: "rx \<Rightarrow> rx" where
  "some r = Then r (Many r)"

definition maybe :: "rx \<Rightarrow> rx" where
  "maybe r = Or r Empty"

definition digits :: "char list" where
  "digits = ''0123456789''"

definition digit :: rx where
  "digit = OneOf digits"

text \<open>The code units below 256 that \<^verbatim>\<open>\s\<close> and \<^verbatim>\<open>trim\<close> take for white space: tab, line feed,
  vertical tab, form feed, carriage return, space and the no-break space. (The others are
  U+1680, U+2000 to U+200A, U+2028, U+2029, U+202F, U+205F, U+3000 and U+FEFF.)\<close>

definition spaceChars :: "char list" where
  "spaceChars = [CHR 0x09, CHR 0x0A, CHR 0x0B, CHR 0x0C, CHR 0x0D, CHR 0x20, CHR 0xA0]"

definition isSpace :: "char \<Rightarrow> bool" where
  "isSpace c = (c \<in> set spaceChars)"

definition js_trim :: "string \<Rightarrow> string" where
  "js_trim s = rev (dropWhile isSpace (rev (dropWhile isSpace s)))"

text \<open>\<^verbatim>\<open>s.split(/\s+/)\<close>: the pieces between the runs of white space; a run at either end
  leaves an empty piece there. The flag says whether the last code unit was white space,
  \<open>cur\<close> is the piece being read.\<close>

fun splitRun :: "bool \<Rightarrow> string \<Rightarrow> string \<Rightarrow> string list" where
  "splitRun inRun cur [] = [cur]"
| "splitRun inRun cur (c # cs) =
     (if isSpace c
      then (if inRun then splitRun True cur cs else cur # splitRun True [] cs)
      else splitRun False (cur @ [c]) cs)"

definition splitSpaces :: "string \<Rightarrow> string list" where
  "splitSpaces s = splitRun False [] s"

text \<open>Decimal digits of a natural number (a number in a template string).\<close>

fun showNat :: "nat \<Rightarrow> string" where
  "showNat n =
     (if n < 10 then [char_of (48 + n)] else showNat (n div 10) @ [char_of (48 + n mod 10)])"

subsection \<open>The comprehensive ATS checker (\<^verbatim>\<open>ats-compliance.ts\<close>)\<close>

datatype Severity = Error | Warning | Info

record ATSRule =
  rule_id :: string
  rule_name :: string
  description :: string
  severity :: Severity

record ATSViolation =
  rule :: ATSRule
  location :: "string option"
  suggestion :: "string option"

record ATSReport =
  passed :: bool
  score :: int
  violations :: "ATSViolation list"
  warnings :: "ATSViolation list"
  checkedRules :: "ATSRule list"

record BulletRewrite =
  original :: string
  rewritten :: string
  keywordsIncluded :: "string list"
  br_hasMetric :: bool

record GeneratedExperience = Experience +
  exp_rewrittenBullets :: "BulletRewrite list"
  exp_includedInResume :: bool

record GeneratedProject = Project +
  proj_rewrittenBullets :: "BulletRewrite list"
  proj_includedInResume :: bool

text \<open>\<^verbatim>\<open>GeneratedResume\<close>, without the three reports it carries (no checker reads them).\<close>

record GeneratedResume =
  contact :: ContactInfo
  summary :: "string option"
  experiences :: "GeneratedExperience list"
  projects :: "GeneratedProject list"
  education :: "Education list"
  skills :: "SkillCategory list"

definition ATS_RULES :: "ATSRule list" where
  "ATS_RULES =
    [
     \<lparr> rule_id = ''contact-email'', rule_name = ''Email Required'',
       description = ''Resume must include a valid email address'',
       severity = Error \<rparr>,
     \<lparr> rule_id = ''contact-phone'', rule_name = ''Phone Recommended'',
       description = ''Including a phone number improves ATS compatibility'',
       severity = Warning \<rparr>,
     \<lparr> rule_id = ''contact-name'', rule_name = ''Full Name Required'',
       description = ''Resume must include full name at the top'',
       severity = Error \<rparr>,
     \<lparr> rule_id = ''has-experience'', rule_name = ''Work Experience'',
       description = ''Resume should have work experience section'',
       severity = Warning \<rparr>,
     \<lparr> rule_id = ''has-skills'', rule_name = ''Skills Section'',
       description = ''Resume should have skills section for ATS keyword matching'',
       severity = Warning \<rparr>,
     \<lparr> rule_id = ''has-education'', rule_name = ''Education Section'',
       description = ''Include education section if relevant'',
       severity = Info \<rparr>,
     \<lparr> rule_id = ''bullet-count'', rule_name = ''Bullet Count'',
       description = ''Each experience should have 2-4 bullet points'',
       severity = Warning \<rparr>,
     \<lparr> rule_id = ''bullet-metrics'', rule_name = ''Quantified Achievements'',
       description = ''Bullet points should include metrics (numbers, percentages)'',
       severity = Info \<rparr>,
     \<lparr> rule_id = ''bullet-action-verbs'', rule_name = ''Action Verbs'',
       description = ''Bullets should start with strong action verbs'',
       severity = Info \<rparr>,
     \<lparr> rule_id = ''summary-optional'', rule_name = ''Summary Section'',
       description = ''Summary is optional - strong experience sections can stand alone'',
       severity = Info \<rparr>,
     \<lparr> rule_id = ''date-format'', rule_name = ''Standard Date Format'',
       description = ''Dates should use Month Year format (e.g., May 2023)'',
       severity = Warning \<rparr>,
     \<lparr> rule_id = ''consistent-dates'', rule_name = ''Consistent Dates'',
       description = ''All dates should use the same format'',
       severity = Info \<rparr>,
     \<lparr> rule_id = ''no-special-chars'', rule_name = ''No Special Characters'',
       description = ''Avoid special characters that may confuse ATS parsers'',
       severity = Warning \<rparr>,
     \<lparr> rule_id = ''no-images'', rule_name = ''No Images'',
       description = ''Resume should not contain images, icons, or graphics'',
       severity = Error \<rparr>,
     \<lparr> rule_id = ''single-column'', rule_name = ''Single Column Layout'',
       description = ''Resume uses single column layout for ATS compatibility'',
       severity = Error \<rparr>,
     \<lparr> rule_id = ''text-based'', rule_name = ''Text-Based Content'',
       description = ''All content must be actual text, not embedded as graphics'',
       severity = Error \<rparr>,
     \<lparr> rule_id = ''standard-fonts'', rule_name = ''Standard Fonts'',
       description = ''Using ATS-safe fonts (Times New Roman, Arial, Helvetica)'',
       severity = Info \<rparr>,
     \<lparr> rule_id = ''standard-sections'', rule_name = ''Standard Section Headings'',
       description = ''Using standard section names (Experience, Education, Skills)'',
       severity = Info \<rparr>,
     \<lparr> rule_id = ''keywords-in-experience'', rule_name = ''Keywords in Experience'',
       description = ''JD keywords should appear in experience bullets'',
       severity = Warning \<rparr>,
     \<lparr> rule_id = ''keywords-in-skills'', rule_name = ''Keywords in Skills'',
       description = ''JD keywords should appear in skills section'',
       severity = Warning \<rparr>,
     \<lparr> rule_id = ''no-keyword-stuffing'', rule_name = ''No Keyword Stuffing'',
       description = ''Keywords should appear naturally, not repeated excessively'',
       severity = Warning \<rparr>,
     \<lparr> rule_id = ''links-text-based'', rule_name = ''Text-Based Links'',
       description = ''URLs should be written in full, not hidden behind hyperlinks'',
       severity = Info \<rparr>,
     \<lparr> rule_id = ''valid-linkedin'', rule_name = ''Valid LinkedIn URL'',
       description = ''LinkedIn URL should be in standard format'',
       severity = Info \<rparr>
    ]"

text \<open>\<^verbatim>\<open>ATS_RULES.find((r) => r.id === id)!\<close>.\<close>

definition findRule :: "string \<Rightarrow> ATSRule" where
  "findRule i = the (find (\<lambda>r. rule_id r = i) ATS_RULES)"

text \<open>The class of \<^verbatim>\<open>hasProblematicSpecialChars\<close> holds the box-drawing bars U+2502, U+2551,
  U+2503, U+250A, U+250B, U+2506, U+2507, the small squares U+25AA, U+25AB, the pointers
  U+25BA, U+25C4, the bullet U+2022, the middle dot U+00B7 and the bullet operator U+2219.
  Below 256 that is the middle dot.\<close>

definition problematicChars :: "char list" where
  "problematicChars = [CHR 0xB7]"

definition hasProblematicSpecialChars :: "string \<Rightarrow> bool" where
  "hasProblematicSpecialChars t = list_ex (\<lambda>c. c \<in> set problematicChars) t"

definition monthNames :: rx where
  "monthNames =
     Or (Then (litI ''Jan'') (maybe (litI ''uary'')))
    (Or (Then (litI ''Feb'') (maybe (litI ''ruary'')))
    (Or (Then (litI ''Mar'') (maybe (litI ''ch'')))
    (Or (Then (litI ''Apr'') (maybe (litI ''il'')))
    (Or (litI ''May'')
    (Or (Then (litI ''Jun'') (maybe (litI ''e'')))
    (Or (Then (litI ''Jul'') (maybe (litI ''y'')))
    (Or (Then (litI ''Aug'') (maybe (litI ''ust'')))
    (Or (Then (litI ''Sep'') (maybe (litI ''tember'')))
    (Or (Then (litI ''Oct'') (maybe (litI ''ober'')))
    (Or (Then (litI ''Nov'') (maybe (litI ''ember'')))
        (Then (litI ''Dec'') (maybe (litI ''ember'')))))))))))))"

definition fourDigits :: rx where
  "fourDigits = Then digit (Then digit (Then digit digit))"

text \<open>\<^verbatim>\<open>/^(?:Jan(?:uary)?|...|Dec(?:ember)?)[,\s]*\d{4}$|^Present$|^Current$|^\d{4}$/i\<close>: every
  alternative is anchored at both ends.\<close>

definition standardPattern :: rx where
  "standardPattern =
     Or (Then monthNames (Then (Many (OneOf (CHR '','' # spaceChars))) fourDigits))
    (Or (litI ''Present'')
    (Or (litI ''Current'')
        fourDigits))"

definition isStandardDateFormat :: "string \<Rightarrow> bool" where
  "isStandardDateFormat date = rx_matches standardPattern (js_trim date)"

definition actionVerbs :: "string list" where
  "actionVerbs =
    [''achieved'', ''accelerated'', ''accomplished'', ''acquired'', ''administered'',
     ''advanced'', ''analyzed'', ''applied'', ''architected'', ''assessed'', ''automated'',
     ''balanced'', ''built'', ''calculated'', ''captured'', ''championed'', ''coached'',
     ''collaborated'', ''communicated'', ''completed'', ''conducted'', ''configured'',
     ''consolidated'', ''constructed'', ''consulted'', ''contributed'', ''controlled'',
     ''converted'', ''coordinated'', ''created'', ''cultivated'', ''customized'',
     ''decreased'', ''defined'', ''delivered'', ''demonstrated'', ''deployed'', ''designed'',
     ''developed'', ''devised'', ''diagnosed'', ''directed'', ''discovered'', ''documented'',
     ''drove'', ''earned'', ''edited'', ''educated'', ''eliminated'', ''enabled'',
     ''engineered'', ''enhanced'', ''ensured'', ''established'', ''evaluated'', ''exceeded'',
     ''executed'', ''expanded'', ''expedited'', ''facilitated'', ''finalized'',
     ''formulated'', ''founded'', ''generated'', ''grew'', ''guided'', ''handled'',
     ''headed'', ''identified'', ''illustrated'', ''implemented'', ''improved'',
     ''increased'', ''influenced'', ''initiated'', ''innovated'', ''inspected'',
     ''installed'', ''instituted'', ''integrated'', ''introduced'', ''invented'',
     ''investigated'', ''launched'', ''led'', ''leveraged'', ''maintained'', ''managed'',
     ''maximized'', ''measured'', ''mentored'', ''migrated'', ''minimized'', ''modeled'',
     ''modernized'', ''modified'', ''monitored'', ''negotiated'', ''operated'',
     ''optimized'', ''orchestrated'', ''organized'', ''originated'', ''overhauled'',
     ''oversaw'', ''partnered'', ''performed'', ''piloted'', ''pioneered'', ''planned'',
     ''positioned'', ''prepared'', ''presented'', ''prioritized'', ''processed'',
     ''produced'', ''programmed'', ''projected'', ''promoted'', ''proposed'', ''provided'',
     ''published'', ''purchased'', ''raised'', ''reached'', ''realized'', ''received'',
     ''recommended'', ''reconciled'', ''recorded'', ''recruited'', ''redesigned'',
     ''reduced'', ''refined'', ''refactored'', ''reformed'', ''regulated'', ''remodeled'',
     ''reorganized'', ''repaired'', ''replaced'', ''reported'', ''represented'',
     ''researched'', ''resolved'', ''restored'', ''restructured'', ''reviewed'', ''revised'',
     ''revitalized'', ''saved'', ''scheduled'', ''secured'', ''selected'', ''served'',
     ''shaped'', ''simplified'', ''solved'', ''sourced'', ''spearheaded'', ''specialized'',
     ''specified'', ''standardized'', ''started'', ''streamlined'', ''strengthened'',
     ''structured'', ''succeeded'', ''supervised'', ''supported'', ''surpassed'',
     ''surveyed'', ''sustained'', ''synchronized'', ''systematized'', ''targeted'',
     ''taught'', ''tested'', ''tracked'', ''trained'', ''transferred'', ''transformed'',
     ''translated'', ''trimmed'', ''troubleshot'', ''unified'', ''upgraded'', ''utilized'',
     ''validated'', ''verified'', ''won'', ''wrote'']"

definition startsWithActionVerb :: "string \<Rightarrow> bool" where
  "startsWithActionVerb bullet =
     (let firstWord = toLowerCase (hd (splitSpaces (js_trim bullet)))
      in firstWord \<in> set actionVerbs)"

text \<open>\<^verbatim>\<open>/\d+%|\$[\d,]+|\d+x|\d+\+|\d{1,3}(?:,\d{3})*|\d+/\<close>.\<close>

definition metricPattern :: rx where
  "metricPattern =
     Or (Then (some digit) (lit ''%''))
    (Or (Then (lit ''$'') (some (OneOf (digits @ '',''))))
    (Or (Then (some digit) (lit ''x''))
    (Or (Then (some digit) (lit ''+''))
    (Or (Then (Then digit (Then (maybe digit) (maybe digit)))
              (Many (Then (lit '','') (Then digit (Then digit digit)))))
        (some digit)))))"

definition hasMetric :: "string \<Rightarrow> bool" where
  "hasMetric str = rx_test metricPattern str"

text \<open>The table \<^verbatim>\<open>wordCounts\<close> of \<^verbatim>\<open>hasKeywordStuffing\<close>. It is a plain object, so for the two
  lower-case words that name a property every object inherits, the entry read is not a
  number and the word is never counted.\<close>

definition inheritedKeys :: "string list" where
  "inheritedKeys = [''constructor'', ''__proto__'']"

fun bump :: "string \<Rightarrow> (string \<times> nat) list \<Rightarrow> (string \<times> nat) list" where
  "bump w [] = [(w, 1)]"
| "bump w ((w', n) # rest) = (if w = w' then (w, n + 1) # rest else (w', n) # bump w rest)"

definition hasKeywordStuffing :: "string \<Rightarrow> bool" where
  "hasKeywordStuffing str =
     (let ws = splitSpaces (toLowerCase str);
          wordCounts = fold (\<lambda>w m. if length w > 3 \<and> w \<notin> set inheritedKeys then bump w m else m)
                            ws [];
          totalWords = length ws
      in list_ex (\<lambda>kv. snd kv > 5 \<and> (of_nat (snd kv) :: rat) / of_nat totalWords > 5 / 100)
                 wordCounts)"

text \<open>The two lists the checker fills.\<close>

type_synonym issues = "ATSViolation list \<times> ATSViolation list"

text \<open>The helper \<^verbatim>\<open>addIssue\<close>: an issue of a rule of severity \<^verbatim>\<open>info\<close> goes to neither list.\<close>

definition addIssue :: "ATSRule \<Rightarrow> string option \<Rightarrow> string option \<Rightarrow> issues \<Rightarrow> issues" where
  "addIssue r sugg loc st =
     (let violation = \<lparr> rule = r, location = loc, suggestion = sugg \<rparr>
      in if severity r = Error then (fst st @ [violation], snd st)
         else if severity r = Warning then (fst st, snd st @ [violation])
         else st)"

text \<open>The entries marked \<^verbatim>\<open>includedInResume\<close>, and their rewritten bullets, experiences first.\<close>

definition includedExperiences :: "GeneratedResume \<Rightarrow> GeneratedExperience list" where
  "includedExperiences resume = filter exp_includedInResume (experiences resume)"

definition includedProjects :: "GeneratedResume \<Rightarrow> GeneratedProject list" where
  "includedProjects resume = filter proj_includedInResume (projects resume)"

definition allBullets :: "GeneratedResume \<Rightarrow> BulletRewrite list" where
  "allBullets resume =
     concat (map exp_rewrittenBullets (includedExperiences resume))
       @ concat (map proj_rewrittenBullets (includedProjects resume))"

text \<open>\<^verbatim>\<open>bulletsWithMetrics.length / Math.max(allBullets.length, 1)\<close>, and the same for action verbs.\<close>

definition metricRate :: "GeneratedResume \<Rightarrow> rat" where
  "metricRate resume =
     (let bulletsWithMetrics = filter (\<lambda>b. hasMetric (rewritten b)) (allBullets resume)
      in of_nat (length bulletsWithMetrics) / of_nat (max (length (allBullets resume)) 1))"

definition actionVerbRate :: "GeneratedResume \<Rightarrow> rat" where
  "actionVerbRate resume =
     (let bulletsWithActionVerbs =
            filter (\<lambda>b. startsWithActionVerb (rewritten b)) (allBullets resume)
      in of_nat (length bulletsWithActionVerbs) / of_nat (max (length (allBullets resume)) 1))"

text \<open>\<^verbatim>\<open>[summary, ...bullets, ...skills].filter(Boolean).join(" ")\<close>.\<close>

definition resumeText :: "GeneratedResume \<Rightarrow> string" where
  "resumeText resume =
     js_join '' ''
       (filter (\<lambda>t. t \<noteq> [])
          ((case summary resume of None \<Rightarrow> [] | Some t \<Rightarrow> [t])
             @ map rewritten (allBullets resume)
             @ concat (map cat_skills (skills resume))))"

text \<open>Contact information checks: email, phone, name.\<close>

definition contactChecks :: "GeneratedResume \<Rightarrow> issues \<Rightarrow> issues" where
  "contactChecks resume st =
     (let st1 = (if email (contact resume) = []
                 then addIssue (findRule ''contact-email'')
                        (Some ''Add a professional email address'') None st
                 else st);
          st2 = (if \<not> truthy (phone (contact resume))
                 then addIssue (findRule ''contact-phone'')
                        (Some ''Consider adding a phone number'') None st1
                 else st1);
          st3 = (if fullName (contact resume) = [] \<or> length (fullName (contact resume)) < 2
                 then addIssue (findRule ''contact-name'') (Some ''Include your full name'') None st2
                 else st2)
      in st3)"

text \<open>Section checks: an included experience, a skill.\<close>

definition sectionChecks :: "GeneratedResume \<Rightarrow> issues \<Rightarrow> issues" where
  "sectionChecks resume st =
     (let st1 = (if length (includedExperiences resume) = 0
                 then addIssue (findRule ''has-experience'')
                        (Some ''Add work experience section'') None st
                 else st);
          st2 = (if length (skills resume) = 0 \<or> length (concat (map cat_skills (skills resume))) = 0
                 then addIssue (findRule ''has-skills'')
                        (Some ''Add skills section with relevant keywords'') None st1
                 else st1)
      in st2)"

text \<open>Content quality checks: the bullet count of every included experience.\<close>

definition bulletCountChecks :: "GeneratedResume \<Rightarrow> issues \<Rightarrow> issues" where
  "bulletCountChecks resume st =
     fold (\<lambda>xp st'.
             if length (exp_rewrittenBullets xp) < 2
             then addIssue (findRule ''bullet-count'')
                    (Some (''Add more bullet points to \"'' @ exp_title xp @ ''\" role''))
                    (Some (''experience.'' @ exp_id xp)) st'
             else if length (exp_rewrittenBullets xp) > 5
             then addIssue (findRule ''bullet-count'')
                    (Some (''Consider reducing bullets for \"'' @ exp_title xp @ ''\" role''))
                    (Some (''experience.'' @ exp_id xp)) st'
             else st')
          (includedExperiences resume) st"

text \<open>Content quality checks: the metric rate and the action-verb rate of all bullets.\<close>

definition bulletQualityChecks :: "GeneratedResume \<Rightarrow> issues \<Rightarrow> issues" where
  "bulletQualityChecks resume st =
     (let st1 = (if metricRate resume < 4 / 10
                 then addIssue (findRule ''bullet-metrics'')
                        (Some (''Only '' @ showNat (nat (js_round (metricRate resume * 100)))
                                 @ ''% of bullets have metrics. Add more quantified achievements.''))
                        None st
                 else st);
          st2 = (if actionVerbRate resume < 8 / 10
                 then addIssue (findRule ''bullet-action-verbs'')
                        (Some ''Start more bullet points with strong action verbs'') None st1
                 else st1)
      in st2)"

text \<open>Start and end of every included experience, then the graduation dates; empty strings are dropped (\<^verbatim>\<open>filter(Boolean)\<close>).\<close>

definition allDates :: "GeneratedResume \<Rightarrow> string list" where
  "allDates resume =
     filter (\<lambda>d. d \<noteq> [])
       (concat (map (\<lambda>e. [startDate e, endDate e]) (includedExperiences resume))
          @ map graduationDate (education resume))"

text \<open>Date format checks: the first date that is not in a standard format is reported.\<close>

definition dateChecks :: "GeneratedResume \<Rightarrow> issues \<Rightarrow> issues" where
  "dateChecks resume st =
     (let invalidDates = filter (\<lambda>d. \<not> isStandardDateFormat d) (allDates resume)
      in if length invalidDates > 0
         then addIssue (findRule ''date-format'')
                (Some (''Use standard date format (e.g., \"May 2023\"). Found: '' @ hd invalidDates))
                None st
         else st)"

text \<open>Special character check and keyword stuffing check, on the joined text.\<close>

definition textChecks :: "GeneratedResume \<Rightarrow> issues \<Rightarrow> issues" where
  "textChecks resume st =
     (let st1 = (if hasProblematicSpecialChars (resumeText resume)
                 then addIssue (findRule ''no-special-chars'')
                        (Some ''Remove special characters that may confuse ATS parsers'') None st
                 else st);
          st2 = (if hasKeywordStuffing (resumeText resume)
                 then addIssue (findRule ''no-keyword-stuffing'')
                        (Some ''Reduce repetition of keywords. Use synonyms or rephrase.'') None st1
                 else st1)
      in st2)"

text \<open>All the checks, in the order of the source, from two empty lists.\<close>

definition collectIssues :: "GeneratedResume \<Rightarrow> issues" where
  "collectIssues resume =
     textChecks resume
       (dateChecks resume
          (bulletQualityChecks resume
             (bulletCountChecks resume
                (sectionChecks resume
                   (contactChecks resume ([], []))))))"

text \<open>The score: 100, less 20 for each violation of severity \<^verbatim>\<open>error\<close> and 5 for each
  warning of severity \<^verbatim>\<open>warning\<close>, then \<^verbatim>\<open>Math.max(0, Math.min(100, score))\<close>.\<close>

definition complianceScore :: "ATSViolation list \<Rightarrow> ATSViolation list \<Rightarrow> int" where
  "complianceScore vs ws =
     (let score0 = (100 :: int);
          score1 = fold (\<lambda>v s. if severity (rule v) = Error then s - 20 else s) vs score0;
          score2 = fold (\<lambda>w s. if severity (rule w) = Warning then s - 5 else s) ws score1
      in max 0 (min 100 score2))"

definition checkATSCompliance :: "GeneratedResume \<Rightarrow> ATSReport" where
  "checkATSCompliance resume =
     (let st = collectIssues resume
      in \<lparr> passed = (length (filter (\<lambda>v. severity (rule v) = Error) (fst st)) = 0),
           score = complianceScore (fst st) (snd st),
           violations = fst st,
           warnings = snd st,
           checkedRules = ATS_RULES \<rparr>)"

text \<open>\<^verbatim>\<open>quickATSCheck\<close>, on a resume whose fields are all present.\<close>

definition quickATSCheck :: "GeneratedResume \<Rightarrow> int \<times> string list" where
  "quickATSCheck resume =
     (let st0 = ([], 100 :: int);
          st1 = (if email (contact resume) = []
                 then (fst st0 @ [''Missing email address''], snd st0 - 20) else st0);
          st2 = (if \<not> truthy (phone (contact resume))
                 then (fst st1 @ [''Missing phone number''], snd st1 - 5) else st1);
          st3 = (if length (includedExperiences resume) = 0
                 then (fst st2 @ [''No work experience included''], snd st2 - 15) else st2);
          st4 = (if length (concat (map cat_skills (skills resume))) = 0
                 then (fst st3 @ [''No skills listed''], snd st3 - 10) else st3)
      in (max 0 (snd st4), fst st4))"

subsection \<open>The generator's own ATS check (\<^verbatim>\<open>generator.ts\<close>)\<close>

definition contactRule :: ATSRule where
  "contactRule = \<lparr> rule_id = ''contact-info'', rule_name = ''Contact Information'',
                    description = ''Resume must have email and phone'', severity = Error \<rparr>"

definition experienceRule :: ATSRule where
  "experienceRule = \<lparr> rule_id = ''has-experience'', rule_name = ''Work Experience'',
                       description = ''Resume should have work experience section'',
                       severity = Warning \<rparr>"

definition skillsRule :: ATSRule where
  "skillsRule = \<lparr> rule_id = ''has-skills'', rule_name = ''Skills Section'',
                   description = ''Resume should have a skills section for ATS keyword matching'',
                   severity = Warning \<rparr>"

definition dateRule :: ATSRule where
  "dateRule = \<lparr> rule_id = ''date-format'', rule_name = ''Date Format'',
                 description = ''Dates should be in standard format (Month Year)'',
                 severity = Info \<rparr>"

definition metricRule :: ATSRule where
  "metricRule = \<lparr> rule_id = ''bullet-metrics'', rule_name = ''Quantified Achievements'',
                   description = ''Bullets should include metrics where possible'',
                   severity = Info \<rparr>"

text \<open>Rule 1 (contact information): a missing email is the only violation.\<close>

definition generatorViolations :: "GeneratedResume \<Rightarrow> ATSViolation list" where
  "generatorViolations resume =
     (if email (contact resume) = []
      then [\<lparr> rule = contactRule, location = None, suggestion = Some ''Add email address'' \<rparr>]
      else [])"

text \<open>Rules 2, 3 and 5: no included experience, no skill, and fewer than half of the bullets of the included experiences flagged \<^verbatim>\<open>hasMetric\<close>. Rule 4 (dates) is only listed.\<close>

definition generatorWarnings :: "GeneratedResume \<Rightarrow> ATSViolation list" where
  "generatorWarnings resume =
     (let w0 = [];
          w1 = (if length (filter exp_includedInResume (experiences resume)) = 0
                then w0 @ [\<lparr> rule = experienceRule, location = None,
                               suggestion = Some ''Add at least one work experience'' \<rparr>]
                else w0);
          w2 = (if length (skills resume) = 0 \<or> length (concat (map cat_skills (skills resume))) = 0
                then w1 @ [\<lparr> rule = skillsRule, location = None,
                               suggestion = Some ''Add skills section with relevant keywords'' \<rparr>]
                else w1);
          included = concat (map exp_rewrittenBullets
                               (filter exp_includedInResume (experiences resume)));
          bulletsWithMetrics = length (filter br_hasMetric included);
          totalBullets = length included;
          w3 = (if totalBullets > 0
                   \<and> (of_nat bulletsWithMetrics :: rat) / of_nat totalBullets < 1 / 2
                then w2 @ [\<lparr> rule = metricRule, location = None,
                               suggestion = Some ''Add more quantified metrics to your bullet points'' \<rparr>]
                else w2)
      in w3)"

text \<open>\<^verbatim>\<open>Math.max(0, 100 - errorCount * 20 - warningCount * 5)\<close>.\<close>

definition generatorScore :: "int \<Rightarrow> int \<Rightarrow> int" where
  "generatorScore errorCount warningCount = max 0 (100 - errorCount * 20 - warningCount * 5)"

definition generator_checkATSCompliance :: "GeneratedResume \<Rightarrow> ATSReport" where
  "generator_checkATSCompliance generatedResume =
     (let violations' = generatorViolations generatedResume;
          warnings' = generatorWarnings generatedResume;
          errorCount = int (length violations');
          warningCount = int (length warnings')
      in \<lparr> passed = (errorCount = 0),
           score = generatorScore errorCount warningCount,
           violations = violations',
           warnings = warnings',
           checkedRules = [contactRule, experienceRule, skillsRule, dateRule, metricRule] \<rparr>)"

subsection \<open>JD match report\<close>

record KeywordCoverage =
  keyword :: string
  found :: bool
  locations :: "string list"
  kc_importance :: Importance














subsection \<open>The statements of the specification, for comparison\<close>

text \<open>The experience score as the specification words it: title points, keyword points and
  theme points, clamped to 100.\<close>

definition bulletText :: "'a Experience_scheme \<Rightarrow> string" where
  "bulletText e = js_join '' '' (exp_bullets e)"

definition appearsIn :: "string \<Rightarrow> string \<Rightarrow> bool" where
  "appearsIn kw t = js_includes (toLowerCase t) (toLowerCase kw)"

definition claimedTitlePoints :: "'a Experience_scheme \<Rightarrow> JDAnalysis \<Rightarrow> rat" where
  "claimedTitlePoints e jd =
     (if js_includes (toLowerCase (exp_title e)) (toLowerCase (roleType jd))
         \<or> js_includes (toLowerCase (roleType jd)) (toLowerCase (exp_title e))
      then 20 else 0)"

definition claimedKeywordPoints :: "'a Experience_scheme \<Rightarrow> JDAnalysis \<Rightarrow> rat" where
  "claimedKeywordPoints e jd =
     (let m = length (filter (\<lambda>kw. appearsIn kw (bulletText e))
                        (primaryKeywords jd @ secondaryKeywords jd
                           @ concat (map cluster_skills (skillClusters jd))));
          keywordCount = length (primaryKeywords jd @ secondaryKeywords jd)
      in min 40 (of_nat m / of_nat (max keywordCount 1) * 60))"

definition claimedThemePoints :: "'a Experience_scheme \<Rightarrow> JDAnalysis \<Rightarrow> rat" where
  "claimedThemePoints e jd =
     (\<Sum>th\<leftarrow>impactThemes jd.
        \<Sum>kw\<leftarrow>filter (\<lambda>kw. appearsIn kw (bulletText e)) (theme_keywords th). 5 * weight th)"

definition claimedExperienceRelevance :: "'a Experience_scheme \<Rightarrow> JDAnalysis \<Rightarrow> rat" where
  "claimedExperienceRelevance e jd =
     min 100 (claimedTitlePoints e jd + claimedKeywordPoints e jd + claimedThemePoints e jd)"

text \<open>The sections of one kind in a plan, and the lines they were given.\<close>

definition sectionsOf :: "SectionType \<Rightarrow> LayoutPlan \<Rightarrow> LayoutSection list" where
  "sectionsOf ty plan = filter (\<lambda>s. sec_type s = ty) (sections plan)"

definition linesOf :: "SectionType \<Rightarrow> LayoutPlan \<Rightarrow> int" where
  "linesOf ty plan = sum_list (map allocatedLines (sectionsOf ty plan))"

text \<open>An experience as the specification counts it: \<open>min(maxBulletsPerExperience, bullets)\<close>
  bullets, two header lines and two lines a bullet.\<close>

definition claimedExpBullets :: "ResumeConfig \<Rightarrow> 'a Experience_scheme \<Rightarrow> int" where
  "claimedExpBullets config e = min (maxBulletsPerExperience config) (int (length (exp_bullets e)))"

definition claimedExpCost :: "ResumeConfig \<Rightarrow> 'a Experience_scheme \<Rightarrow> int" where
  "claimedExpCost config e = 2 + claimedExpBullets config e * 2"

definition claimedExpItem :: "ResumeConfig \<Rightarrow> 'a Experience_scheme \<Rightarrow> LayoutItem" where
  "claimedExpItem config e = \<lparr> item_id = exp_id e, bulletCount = claimedExpBullets config e \<rparr>"







definition isError :: "ATSViolation \<Rightarrow> bool" where
  "isError v = (severity (rule v) = Error)"

text \<open>The two lists are sorted by severity: errors in the first, warnings in the second.\<close>

definition sorted_issues :: "issues \<Rightarrow> bool" where
  "sorted_issues st = (list_all (\<lambda>v. severity (rule v) = Error) (fst st)
                        \<and> list_all (\<lambda>w. severity (rule w) = Warning) (snd st))"

definition mentionsRule :: "string \<Rightarrow> ATSViolation list \<Rightarrow> bool" where
  "mentionsRule i vs = list_ex (\<lambda>v. rule_id (rule v) = i) vs"

subsection \<open>Sample inputs\<close>

text \<open>\<^verbatim>\<open>DEFAULT_CONFIG\<close> of the type definitions.\<close>

definition DEFAULT_CONFIG :: ResumeConfig where
  "DEFAULT_CONFIG =
     \<lparr> pageCount = OnePage,
       includeSections =
         \<lparr> inc_summary = False, inc_skills = True, inc_experience = True, inc_projects = True,
           inc_education = True, inc_certifications = True, inc_publications = False,
           inc_awards = False \<rparr>,
       maxBulletsPerExperience = 4,
       maxProjects = 3,
       summaryLength = Short \<rparr>"

definition noScores :: RelevanceMap where
  "noScores = \<lparr> rm_experiences = [], rm_projects = [], rm_skills = [], overallMatch = 0 \<rparr>"

definition sampleExperience :: "string \<Rightarrow> Experience" where
  "sampleExperience i =
     \<lparr> exp_id = i, exp_title = ''Senior Software Engineer'', exp_company = ''Acme'',
       startDate = ''May 2021'', endDate = ''Present'',
       exp_bullets = [''Built the billing service in Python'', ''Deployed on AWS'',
                      ''Designed the public API'', ''Reduced build times''],
       exp_relevanceScore = None \<rparr>"

definition sampleProject :: "string \<Rightarrow> Project" where
  "sampleProject i =
     \<lparr> proj_id = i, proj_title = ''Trip planner'', techStack = [''Python'', ''React''],
       link = None,
       proj_bullets = [''Built a trip planner'', ''Deployed it on AWS''],
       proj_relevanceScore = None \<rparr>"

definition sampleEducation :: Education where
  "sampleEducation =
     \<lparr> edu_id = ''edu'', degree = ''BSc'', institution = ''State University'',
       graduationDate = ''May 2020'' \<rparr>"

definition sampleContact :: ContactInfo where
  "sampleContact = \<lparr> fullName = ''Ada Lovelace'', email = ''ada@example.org'',
                      phone = Some ''555-0100'' \<rparr>"

definition sampleJob :: JDAnalysis where
  "sampleJob =
     \<lparr> jobTitle = ''Backend Engineer'', roleType = ''Software Engineer'',
       seniorityLevel = ''Senior'', domain = ''Enterprise'',
       skillClusters = [\<lparr> cluster_category = ''Languages'', cluster_skills = [''Python'', ''Go''],
                          importance = Required \<rparr>],
       primaryKeywords = [''Python'', ''AWS''],
       secondaryKeywords = [''API''],
       impactThemes = [\<lparr> theme = ''efficiency'', theme_keywords = [''reduced'', ''automated''],
                         weight = 1 / 2 \<rparr>] \<rparr>"

text \<open>A profile with six skill categories, two degrees, two experiences of four bullets and
  two projects of two bullets.\<close>

definition crowdedProfile :: ResumeData where
  "crowdedProfile =
     \<lparr> rd_contact = sampleContact,
       rd_summary = None,
       rd_experiences = [sampleExperience ''e1'', sampleExperience ''e2''],
       rd_projects = [sampleProject ''p1'', sampleProject ''p2''],
       rd_education = [sampleEducation, sampleEducation],
       rd_skills = map (\<lambda>c. \<lparr> category = c, cat_skills = [''Python''] \<rparr>)
                       [''Languages'', ''Frameworks'', ''Tools'', ''Methods'', ''Cloud'', ''Data''] \<rparr>"

text \<open>A profile with sixteen degrees and one experience.\<close>

definition manyDegrees :: ResumeData where
  "manyDegrees =
     \<lparr> rd_contact = sampleContact,
       rd_summary = None,
       rd_experiences = [sampleExperience ''e1''],
       rd_projects = [],
       rd_education = replicate 16 sampleEducation,
       rd_skills = [] \<rparr>"

definition plainBullet :: "string \<Rightarrow> BulletRewrite" where
  "plainBullet t = \<lparr> original = t, rewritten = t, keywordsIncluded = [], br_hasMetric = False \<rparr>"

text \<open>A generated resume without an email address whose three bullets hold no number.\<close>

definition noMetricsResume :: GeneratedResume where
  "noMetricsResume =
     \<lparr> contact = \<lparr> fullName = ''Ada Lovelace'', email = [], phone = Some ''555-0100'' \<rparr>,
       summary = None,
       experiences =
         [\<lparr> exp_id = ''e1'', exp_title = ''Software Engineer'', exp_company = ''Acme'',
            startDate = ''May 2021'', endDate = ''Present'',
            exp_bullets = [''Built search'', ''Led migration'', ''Designed pipeline''],
            exp_relevanceScore = Some 60,
            exp_rewrittenBullets = [plainBullet ''Built search'', plainBullet ''Led migration'',
                                    plainBullet ''Designed pipeline''],
            exp_includedInResume = True \<rparr>],
       projects = [],
       education = [],
       skills = [\<lparr> category = ''Languages'', cat_skills = [''Python''] \<rparr>] \<rparr>"




section \<open>Properties\<close>

subsection \<open>Relevance scores\<close>

lemma fold_count: "fold (\<lambda>x n. if P x then n + 1 else n) xs (a::nat) = a + length (filter P xs)"
  by (induction xs arbitrary: a) auto

lemma fold_add_if:
  "fold (\<lambda>x s. if P x then s + (c::rat) else s) xs a = a + (\<Sum>x\<leftarrow>filter P xs. c)"
  by (induction xs arbitrary: a) auto

lemma themeLoop_sum:
  "themeLoop txt themes a =
     a + (\<Sum>th\<leftarrow>themes. \<Sum>kw\<leftarrow>filter (\<lambda>kw. js_includes txt (toLowerCase kw)) (theme_keywords th).
            5 * weight th)"
  unfolding themeLoop_def
  by (induction themes arbitrary: a) (auto simp: fold_add_if)

lemma themeLoop_mono:
  assumes "\<forall>th \<in> set themes. 0 \<le> weight th"
  shows "a \<le> themeLoop txt themes a"
proof -
  have "0 \<le> (\<Sum>th\<leftarrow>themes. \<Sum>kw\<leftarrow>filter (\<lambda>kw. js_includes txt (toLowerCase kw)) (theme_keywords th).
            5 * weight th)"
    using assms by (intro sum_list_nonneg) (auto intro!: sum_list_nonneg)
  then show ?thesis by (simp add: themeLoop_sum)
qed

lemma filter_lower_length:
  "length (filter (\<lambda>k. js_includes txt k) (map toLowerCase ks))
     = length (filter (\<lambda>k. js_includes txt (toLowerCase k)) ks)"
  by (induction ks) auto

lemma skillKeywords_map:
  "skillKeywords jd = map toLowerCase (concat (map cluster_skills (skillClusters jd)))"
  by (simp add: skillKeywords_def map_concat comp_def)

lemma keywordMatches_count:
  "keywordMatches txt jd =
     length (filter (\<lambda>kw. js_includes txt (toLowerCase kw))
               (primaryKeywords jd @ secondaryKeywords jd
                  @ concat (map cluster_skills (skillClusters jd))))"
proof -
  have "allKeywords jd @ skillKeywords jd =
          map toLowerCase (primaryKeywords jd @ secondaryKeywords jd
                             @ concat (map cluster_skills (skillClusters jd)))"
    by (simp add: allKeywords_def skillKeywords_map)
  then show ?thesis
    unfolding keywordMatches_def fold_count
    by (simp only: filter_lower_length)
qed

text \<open>
  Claim C6. For every experience and job analysis, \<^verbatim>\<open>calculateExperienceRelevance\<close> returns
  \<open>min(100, T + K + B)\<close>: \<open>T\<close> is 20 when the lower-cased title and the lower-cased role type
  contain one another (either way) and 0 otherwise; \<open>K = min(40, m / max(keywordCount, 1) * 60)\<close>
  with \<open>m\<close> the number of entries among the primary and secondary keywords and all skill
  tokens that occur, without regard to case, in the space-joined bullets, and \<open>keywordCount\<close>
  the number of primary and secondary keywords; \<open>B\<close> adds \<open>5 * weight\<close> for every keyword of
  every impact theme that occurs in the bullets, with no cap of its own.
\<close>

theorem calculateExperienceRelevance_formula:
  "calculateExperienceRelevance e jd = claimedExperienceRelevance e jd"
proof -
  have k: "keywordDivisor jd = max (length (primaryKeywords jd @ secondaryKeywords jd)) 1"
    by (simp add: keywordDivisor_def allKeywords_def)
  show ?thesis
    unfolding calculateExperienceRelevance_def claimedExperienceRelevance_def
      claimedTitlePoints_def claimedKeywordPoints_def claimedThemePoints_def
      appearsIn_def bulletText_def Let_def themeLoop_sum keywordMatches_count k
    by (simp add: min.commute)
qed

lemma experience_score_bounds:
  assumes "\<forall>th \<in> set (impactThemes jd). 0 \<le> weight th"
  shows "0 \<le> calculateExperienceRelevance e jd \<and> calculateExperienceRelevance e jd \<le> 100"
proof -
  define bt where "bt = toLowerCase (js_join '' '' (exp_bullets e))"
  define k where "k = min 40 ((of_nat (keywordMatches bt jd) :: rat) / of_nat (keywordDivisor jd) * 60)"
  define t :: rat where "t = (if js_includes (toLowerCase (exp_title e)) (toLowerCase (roleType jd))
       \<or> js_includes (toLowerCase (roleType jd)) (toLowerCase (exp_title e)) then 0 + 20 else 0)"
  have k0: "0 \<le> k" unfolding k_def by simp
  have t0: "0 \<le> t" unfolding t_def by simp
  have "t + k \<le> themeLoop bt (impactThemes jd) (t + k)"
    using assms by (rule themeLoop_mono)
  with k0 t0 have "0 \<le> themeLoop bt (impactThemes jd) (t + k)" by linarith
  moreover have "calculateExperienceRelevance e jd = min (themeLoop bt (impactThemes jd) (t + k)) 100"
    unfolding calculateExperienceRelevance_def Let_def bt_def k_def t_def by simp
  ultimately show ?thesis by simp
qed

lemma project_score_bounds:
  "0 \<le> calculateProjectRelevance p jd \<and> calculateProjectRelevance p jd \<le> 100"
  unfolding calculateProjectRelevance_def Let_def by simp

lemma skill_score_bounds: "0 \<le> skillScore jd s \<and> skillScore jd s \<le> 100"
  unfolding skillScore_def by simp

lemma setScore_values:
  "P v \<Longrightarrow> \<forall>kv \<in> set m. P (snd kv) \<Longrightarrow> \<forall>kv \<in> set (setScore k v m). P (snd kv)"
  by (induction m) (force split: if_splits)+

lemma fold_setScore_values:
  assumes "\<forall>x \<in> set xs. P (f x)" "\<forall>kv \<in> set m. P (snd kv)"
  shows "\<forall>kv \<in> set (fold (\<lambda>x m. setScore (key x) (f x) m) xs m). P (snd kv)"
  using assms
proof (induction xs arbitrary: m)
  case Nil
  then show ?case by simp
next
  case (Cons x xs)
  have "\<forall>kv \<in> set (setScore (key x) (f x) m). P (snd kv)"
    using setScore_values[of P "f x" m "key x"] Cons.prems by simp
  with Cons show ?case by simp
qed

lemma divisors_positive: "1 \<le> keywordDivisor jd \<and> 1 \<le> techDivisor p"
  by (simp add: keywordDivisor_def techDivisor_def)

text \<open>
  Claim C7. For a job whose impact themes have weights that are not negative (the type gives
  them the range 0 to 1), every experience score, project score and skill score lies between
  0 and 100, also for empty bullet lists, keyword lists and tech stacks, and so does every
  entry of the three score tables that \<^verbatim>\<open>mapJDToProfile\<close> builds. The two divisors of the
  scores are at least 1, so nothing is divided by zero.
\<close>

theorem relevance_scores_in_range:
  assumes "\<forall>th \<in> set (impactThemes jd). 0 \<le> weight th"
  shows "0 \<le> calculateExperienceRelevance e jd \<and> calculateExperienceRelevance e jd \<le> 100
       \<and> 0 \<le> calculateProjectRelevance p jd \<and> calculateProjectRelevance p jd \<le> 100
       \<and> 0 \<le> skillScore jd s \<and> skillScore jd s \<le> 100
       \<and> 1 \<le> keywordDivisor jd \<and> 1 \<le> techDivisor p
       \<and> (\<forall>kv \<in> set (rm_experiences (mapJDToProfile jd rd)). 0 \<le> snd kv \<and> snd kv \<le> 100)
       \<and> (\<forall>kv \<in> set (rm_projects (mapJDToProfile jd rd)). 0 \<le> snd kv \<and> snd kv \<le> 100)
       \<and> (\<forall>kv \<in> set (rm_skills (mapJDToProfile jd rd)). 0 \<le> snd kv \<and> snd kv \<le> 100)"
proof -
  let ?ok = "\<lambda>v::rat. 0 \<le> v \<and> v \<le> 100"
  have "\<forall>kv \<in> set (fold (\<lambda>x m. setScore (exp_id x) (calculateExperienceRelevance x jd) m)
                         (rd_experiences rd) []). ?ok (snd kv)"
    by (rule fold_setScore_values) (simp_all add: experience_score_bounds[OF assms])
  then have e: "\<forall>kv \<in> set (rm_experiences (mapJDToProfile jd rd)). ?ok (snd kv)"
    by (simp add: mapJDToProfile_def Let_def)
  have "\<forall>kv \<in> set (fold (\<lambda>x m. setScore (proj_id x) (calculateProjectRelevance x jd) m)
                         (rd_projects rd) []). ?ok (snd kv)"
    by (rule fold_setScore_values) (simp_all add: project_score_bounds)
  then have p: "\<forall>kv \<in> set (rm_projects (mapJDToProfile jd rd)). ?ok (snd kv)"
    by (simp add: mapJDToProfile_def Let_def)
  have "\<forall>kv \<in> set (fold (\<lambda>x m. setScore x (skillScore jd x) m)
                         (concat (map cat_skills (rd_skills rd))) []). ?ok (snd kv)"
    by (rule fold_setScore_values) (simp_all add: skill_score_bounds)
  then have s: "\<forall>kv \<in> set (rm_skills (mapJDToProfile jd rd)). ?ok (snd kv)"
    by (simp add: mapJDToProfile_def Let_def)
  show ?thesis
    using experience_score_bounds[OF assms, of e] project_score_bounds[of p jd]
      skill_score_bounds[of jd s] divisors_positive[of jd p] e p s
    by blast
qed

text \<open>The sample job (weight one half) with the sample experience, project and profile.\<close>

theorem relevance_scores_in_range_witness:
  "list_all (\<lambda>th. 0 \<le> weight th) (impactThemes sampleJob)
   \<and> 0 \<le> calculateExperienceRelevance (sampleExperience ''e1'') sampleJob
   \<and> calculateExperienceRelevance (sampleExperience ''e1'') sampleJob \<le> 100
   \<and> 0 \<le> calculateProjectRelevance (sampleProject ''p1'') sampleJob
   \<and> calculateProjectRelevance (sampleProject ''p1'') sampleJob \<le> 100
   \<and> 0 \<le> skillScore sampleJob ''Python'' \<and> skillScore sampleJob ''Python'' \<le> 100
   \<and> 1 \<le> keywordDivisor sampleJob \<and> 1 \<le> techDivisor (sampleProject ''p1'')
   \<and> list_all (\<lambda>kv. 0 \<le> snd kv \<and> snd kv \<le> 100)
         (rm_experiences (mapJDToProfile sampleJob crowdedProfile))
   \<and> list_all (\<lambda>kv. 0 \<le> snd kv \<and> snd kv \<le> 100)
         (rm_projects (mapJDToProfile sampleJob crowdedProfile))
   \<and> list_all (\<lambda>kv. 0 \<le> snd kv \<and> snd kv \<le> 100)
         (rm_skills (mapJDToProfile sampleJob crowdedProfile))"
proof -
  have h: "\<forall>th \<in> set (impactThemes sampleJob). 0 \<le> weight th"
    by (simp add: sampleJob_def)
  from relevance_scores_in_range[OF h, of "sampleExperience ''e1''" "sampleProject ''p1''"
      "''Python''" crowdedProfile] h
  show ?thesis by (simp add: list_all_iff)
qed

subsection \<open>Ranking\<close>









subsection \<open>Layout allocation\<close>

lemma exp_cost_eq: "totalExpLines config e = claimedExpCost config e"
  by (simp add: totalExpLines_def claimedExpCost_def claimedExpBullets_def expBulletCount_def
      EXPERIENCE_HEADER_LINES_def BULLET_LINES_def)


lemma experienceLoop_prefix:
  "\<exists>n \<le> length es.
      experienceLoop config target es (its, l)
        = (its @ map (claimedExpItem config) (take n es),
           l + sum_list (map (claimedExpCost config) (take n es)))
    \<and> (\<forall>k. 0 < k \<and> k \<le> n \<longrightarrow> l + sum_list (map (claimedExpCost config) (take k es)) \<le> target)
    \<and> (n < length es \<longrightarrow> target < l + sum_list (map (claimedExpCost config) (take (Suc n) es)))"
proof (induction es arbitrary: its l)
  case Nil
  then show ?case by simp
next
  case (Cons e es)
  show ?case
  proof (cases "l + claimedExpCost config e \<le> target")
    case False
    then show ?thesis
      by (intro exI[of _ 0]) (simp add: exp_cost_eq)
  next
    case True
    obtain n where n: "n \<le> length es"
      and eq: "experienceLoop config target es
                (its @ [claimedExpItem config e], l + claimedExpCost config e)
              = ((its @ [claimedExpItem config e]) @ map (claimedExpItem config) (take n es),
                 (l + claimedExpCost config e) + sum_list (map (claimedExpCost config) (take n es)))"
      and fit: "\<forall>k. 0 < k \<and> k \<le> n \<longrightarrow>
                 (l + claimedExpCost config e) + sum_list (map (claimedExpCost config) (take k es)) \<le> target"
      and stop: "n < length es \<longrightarrow>
                 target < (l + claimedExpCost config e) + sum_list (map (claimedExpCost config) (take (Suc n) es))"
      using Cons.IH[of "its @ [claimedExpItem config e]" "l + claimedExpCost config e"] by blast
    have fit': "\<forall>k. 0 < k \<and> k \<le> Suc n \<longrightarrow>
                 l + sum_list (map (claimedExpCost config) (take k (e # es))) \<le> target"
    proof (intro allI impI)
      fix k assume k: "0 < k \<and> k \<le> Suc n"
      then obtain j where j: "k = Suc j" by (cases k) auto
      show "l + sum_list (map (claimedExpCost config) (take k (e # es))) \<le> target"
      proof (cases "j = 0")
        case True
        with j \<open>l + claimedExpCost config e \<le> target\<close> show ?thesis by simp
      next
        case False
        with fit k j show ?thesis by (simp add: add.assoc)
      qed
    qed
    show ?thesis
      apply (intro exI[of _ "Suc n"])
      using True n eq fit' stop
      by (simp add: exp_cost_eq claimedExpItem_def claimedExpBullets_def expBulletCount_def add.assoc)
  qed
qed


lemma allocateTop_eq:
  "allocateTop rd config =
     ([\<lparr> sec_type = HeaderSection, allocatedLines = HEADER_LINES, items = None \<rparr>]
        @ (if inc_summary (includeSections config)
           then [\<lparr> sec_type = SummarySection, allocatedLines = summaryLines config, items = None \<rparr>]
           else [])
        @ (if inc_skills (includeSections config)
           then [\<lparr> sec_type = SkillsSection, allocatedLines = skillLines rd, items = None \<rparr>]
           else []),
      HEADER_LINES
        + (if inc_summary (includeSections config) then summaryLines config else 0)
        + (if inc_skills (includeSections config) then skillLines rd else 0))"
  by (simp add: allocateTop_def Let_def)

lemma allocateExperience_eq:
  "allocateExperience rd config rm st =
     (fst st @ (if inc_experience (includeSections config)
                then [\<lparr> sec_type = ExperienceSection,
                         allocatedLines =
                           snd (experienceLoop config (targetExperienceLines (remainingLines rd config))
                                  (rankExperiences (rd_experiences rd) rm) ([], 0)),
                         items =
                           Some (fst (experienceLoop config
                                        (targetExperienceLines (remainingLines rd config))
                                        (rankExperiences (rd_experiences rd) rm) ([], 0))) \<rparr>]
                else []),
      snd st + (if inc_experience (includeSections config)
                then snd (experienceLoop config (targetExperienceLines (remainingLines rd config))
                            (rankExperiences (rd_experiences rd) rm) ([], 0))
                else 0))"
  by (simp add: allocateExperience_def Let_def)

lemma allocateProjects_eq:
  "allocateProjects rd config rm st =
     (fst st @ (if inc_projects (includeSections config) \<and> rankProjects (rd_projects rd) rm \<noteq> []
                   \<and> fst (projectLoop (targetProjectLines (remainingLines rd config) (snd st) config)
                             (js_slice0 (rankProjects (rd_projects rd) rm) (maxProjects config))
                             ([], 0)) \<noteq> []
                then [\<lparr> sec_type = ProjectsSection,
                         allocatedLines =
                           snd (projectLoop (targetProjectLines (remainingLines rd config) (snd st) config)
                                  (js_slice0 (rankProjects (rd_projects rd) rm) (maxProjects config))
                                  ([], 0)),
                         items =
                           Some (fst (projectLoop
                                        (targetProjectLines (remainingLines rd config) (snd st) config)
                                        (js_slice0 (rankProjects (rd_projects rd) rm) (maxProjects config))
                                        ([], 0))) \<rparr>]
                else []),
      snd st + (if inc_projects (includeSections config) \<and> rankProjects (rd_projects rd) rm \<noteq> []
                   \<and> fst (projectLoop (targetProjectLines (remainingLines rd config) (snd st) config)
                             (js_slice0 (rankProjects (rd_projects rd) rm) (maxProjects config))
                             ([], 0)) \<noteq> []
                then snd (projectLoop (targetProjectLines (remainingLines rd config) (snd st) config)
                            (js_slice0 (rankProjects (rd_projects rd) rm) (maxProjects config))
                            ([], 0))
                else 0))"
  by (simp add: allocateProjects_def Let_def)

lemma allocateEducation_eq:
  "allocateEducation rd config st =
     (fst st @ (if inc_education (includeSections config)
                then [\<lparr> sec_type = EducationSection, allocatedLines = educationLines rd config,
                         items = None \<rparr>]
                else []),
      snd st + (if inc_education (includeSections config) then educationLines rd config else 0))"
  by (simp add: allocateEducation_def)

lemma filter_if_single:
  "filter P (if c then [x] else []) = (if c \<and> P x then [x] else [])"
  by (cases c) auto

lemma sum_if_single:
  "sum_list (map f (if c then [x] else [])) = (if c then f x else (0::int))"
  by simp

lemma sections_allocateLayout:
  "sections (allocateLayout rd config rm)
     = fst (allocateEducation rd config
              (allocateProjects rd config rm
                 (allocateExperience rd config rm (allocateTop rd config))))"
  by (simp add: allocateLayout_def Let_def)



lemma sectionsOf_experience:
  "sectionsOf ExperienceSection (allocateLayout rd config rm)
     = (if inc_experience (includeSections config)
        then [\<lparr> sec_type = ExperienceSection,
                 allocatedLines =
                   snd (experienceLoop config (targetExperienceLines (remainingLines rd config))
                          (rankExperiences (rd_experiences rd) rm) ([], 0)),
                 items =
                   Some (fst (experienceLoop config
                                (targetExperienceLines (remainingLines rd config))
                                (rankExperiences (rd_experiences rd) rm) ([], 0))) \<rparr>]
        else [])"
  unfolding sectionsOf_def sections_allocateLayout
    allocateEducation_eq allocateProjects_eq allocateExperience_eq allocateTop_eq
  by (simp add: filter_if_single split del: if_split cong: if_cong)




text \<open>
  Claim C10. The \<^verbatim>\<open>totalLines\<close> of the plan that \<^verbatim>\<open>allocateLayout\<close> returns is the sum of the
  \<^verbatim>\<open>allocatedLines\<close> of its sections: the tally of the lines used, not the page budget.
\<close>

theorem allocateLayout_totalLines:
  "totalLines (allocateLayout rd config rm)
     = sum_list (map allocatedLines (sections (allocateLayout rd config rm)))"
proof -
  have "totalLines (allocateLayout rd config rm)
          = snd (allocateEducation rd config
              (allocateProjects rd config rm
                 (allocateExperience rd config rm (allocateTop rd config))))"
    by (simp add: allocateLayout_def Let_def)
  then show ?thesis
    unfolding sections_allocateLayout allocateEducation_eq
      allocateProjects_eq [of rd config rm "allocateExperience rd config rm (allocateTop rd config)"]
    unfolding allocateExperience_eq [of rd config rm "allocateTop rd config"]
    unfolding allocateTop_eq
    by (simp add: sum_if_single split del: if_split cong: if_cong)
qed

text \<open>
  Claim C5, as amended. With the experience section enabled, the plan has exactly one
  experience section. It holds a prefix of the ranked experiences, each with
  \<open>min(maxBulletsPerExperience, bullets)\<close> bullets and a cost of two header lines and two lines
  a bullet; every admitted experience kept the running total at or below
  \<open>floor(remainingLines * 0.7)\<close>, and the first experience left out, if there is one, would
  have gone over it. The lines of the section are the total of the admitted costs; they
  stay at or below the target whenever the target is not negative.
\<close>

theorem allocateLayout_experience_walk:
  assumes "inc_experience (includeSections config)"
  shows "\<exists>n \<le> length (rankExperiences (rd_experiences rd) rm).
      sectionsOf ExperienceSection (allocateLayout rd config rm)
        = [\<lparr> sec_type = ExperienceSection,
             allocatedLines =
               sum_list (map (claimedExpCost config)
                           (take n (rankExperiences (rd_experiences rd) rm))),
             items = Some (map (claimedExpItem config)
                             (take n (rankExperiences (rd_experiences rd) rm))) \<rparr>]
    \<and> (\<forall>k. 0 < k \<and> k \<le> n \<longrightarrow>
           sum_list (map (claimedExpCost config)
                       (take k (rankExperiences (rd_experiences rd) rm)))
             \<le> targetExperienceLines (remainingLines rd config))
    \<and> (n < length (rankExperiences (rd_experiences rd) rm) \<longrightarrow>
           targetExperienceLines (remainingLines rd config)
             < sum_list (map (claimedExpCost config)
                           (take (Suc n) (rankExperiences (rd_experiences rd) rm))))
    \<and> (0 \<le> targetExperienceLines (remainingLines rd config) \<longrightarrow>
           sum_list (map (claimedExpCost config)
                       (take n (rankExperiences (rd_experiences rd) rm)))
             \<le> targetExperienceLines (remainingLines rd config))"
proof -
  let ?ranked = "rankExperiences (rd_experiences rd) rm"
  let ?target = "targetExperienceLines (remainingLines rd config)"
  obtain n where n: "n \<le> length ?ranked"
    and eq: "experienceLoop config ?target ?ranked ([], 0)
              = ([] @ map (claimedExpItem config) (take n ?ranked),
                 0 + sum_list (map (claimedExpCost config) (take n ?ranked)))"
    and fit: "\<forall>k. 0 < k \<and> k \<le> n \<longrightarrow>
                0 + sum_list (map (claimedExpCost config) (take k ?ranked)) \<le> ?target"
    and stop: "n < length ?ranked \<longrightarrow>
                ?target < 0 + sum_list (map (claimedExpCost config) (take (Suc n) ?ranked))"
    using experienceLoop_prefix[of ?ranked config ?target "[]" 0] by blast
  have sec: "sectionsOf ExperienceSection (allocateLayout rd config rm)
        = [\<lparr> sec_type = ExperienceSection,
             allocatedLines = sum_list (map (claimedExpCost config) (take n ?ranked)),
             items = Some (map (claimedExpItem config) (take n ?ranked)) \<rparr>]"
    using assms eq
    by (simp add: sectionsOf_experience)
  have bound: "0 \<le> ?target \<longrightarrow> sum_list (map (claimedExpCost config) (take n ?ranked)) \<le> ?target"
  proof (cases "n = 0")
    case True
    then show ?thesis by simp
  next
    case False
    with fit show ?thesis by simp
  qed
  from n sec fit stop bound show ?thesis
    by (intro exI[of _ n]) simp
qed

text \<open>The default configuration on the crowded profile: the target is 24 lines and both
  experiences, of 10 lines each, are admitted.\<close>

theorem allocateLayout_experience_walk_witness:
  "inc_experience (includeSections DEFAULT_CONFIG)
   \<and> targetExperienceLines (remainingLines crowdedProfile DEFAULT_CONFIG) = 24
   \<and> sectionsOf ExperienceSection (allocateLayout crowdedProfile DEFAULT_CONFIG noScores)
       = [\<lparr> sec_type = ExperienceSection, allocatedLines = 20,
            items = Some [\<lparr> item_id = ''e1'', bulletCount = 4 \<rparr>,
                          \<lparr> item_id = ''e2'', bulletCount = 4 \<rparr>] \<rparr>]
   \<and> (\<exists>n \<le> length (rankExperiences (rd_experiences crowdedProfile) noScores).
        sectionsOf ExperienceSection (allocateLayout crowdedProfile DEFAULT_CONFIG noScores)
          = [\<lparr> sec_type = ExperienceSection,
               allocatedLines =
                 sum_list (map (claimedExpCost DEFAULT_CONFIG)
                             (take n (rankExperiences (rd_experiences crowdedProfile) noScores))),
               items = Some (map (claimedExpItem DEFAULT_CONFIG)
                               (take n (rankExperiences (rd_experiences crowdedProfile) noScores))) \<rparr>]
        \<and> sum_list (map (claimedExpCost DEFAULT_CONFIG)
                       (take n (rankExperiences (rd_experiences crowdedProfile) noScores)))
            \<le> 24)"
proof -
  have h: "inc_experience (includeSections DEFAULT_CONFIG)" by code_simp
  have t: "targetExperienceLines (remainingLines crowdedProfile DEFAULT_CONFIG) = 24" by code_simp
  have s: "sectionsOf ExperienceSection (allocateLayout crowdedProfile DEFAULT_CONFIG noScores)
       = [\<lparr> sec_type = ExperienceSection, allocatedLines = 20,
            items = Some [\<lparr> item_id = ''e1'', bulletCount = 4 \<rparr>,
                          \<lparr> item_id = ''e2'', bulletCount = 4 \<rparr>] \<rparr>]" by code_simp
  from allocateLayout_experience_walk[OF h, of crowdedProfile noScores]
  obtain n where "n \<le> length (rankExperiences (rd_experiences crowdedProfile) noScores)"
    and "sectionsOf ExperienceSection (allocateLayout crowdedProfile DEFAULT_CONFIG noScores)
          = [\<lparr> sec_type = ExperienceSection,
               allocatedLines =
                 sum_list (map (claimedExpCost DEFAULT_CONFIG)
                             (take n (rankExperiences (rd_experiences crowdedProfile) noScores))),
               items = Some (map (claimedExpItem DEFAULT_CONFIG)
                               (take n (rankExperiences (rd_experiences crowdedProfile) noScores))) \<rparr>]"
    and "0 \<le> targetExperienceLines (remainingLines crowdedProfile DEFAULT_CONFIG) \<longrightarrow>
           sum_list (map (claimedExpCost DEFAULT_CONFIG)
                       (take n (rankExperiences (rd_experiences crowdedProfile) noScores)))
             \<le> targetExperienceLines (remainingLines crowdedProfile DEFAULT_CONFIG)"
    by blast
  then show ?thesis using h t s by (intro conjI exI[of _ n]) simp_all
qed

text \<open>The claim as first stated (C5) has the lines of the experience section never above
  \<open>floor(remainingLines * 0.7)\<close>. With sixteen degrees on one page the remaining lines are
  \<open>55 - 9 - 48 - 2 = -4\<close> and the target is \<open>-3\<close>; no experience is admitted, and the section
  is pushed with 0 lines, above the target.\<close>

theorem experience_bound_counterexample:
  "inc_experience (includeSections DEFAULT_CONFIG)
   \<and> remainingLines manyDegrees DEFAULT_CONFIG = - 4
   \<and> targetExperienceLines (remainingLines manyDegrees DEFAULT_CONFIG) = - 3
   \<and> sectionsOf ExperienceSection (allocateLayout manyDegrees DEFAULT_CONFIG noScores)
       = [\<lparr> sec_type = ExperienceSection, allocatedLines = 0, items = Some [] \<rparr>]
   \<and> targetExperienceLines (remainingLines manyDegrees DEFAULT_CONFIG)
       < linesOf ExperienceSection (allocateLayout manyDegrees DEFAULT_CONFIG noScores)"
  by code_simp




subsection \<open>ATS compliance\<close>

lemma addIssue_sorted: "sorted_issues st \<Longrightarrow> sorted_issues (addIssue r s l st)"
  by (simp add: sorted_issues_def addIssue_def Let_def)

lemma contactChecks_sorted: "sorted_issues st \<Longrightarrow> sorted_issues (contactChecks resume st)"
  by (simp add: contactChecks_def Let_def addIssue_sorted)

lemma sectionChecks_sorted: "sorted_issues st \<Longrightarrow> sorted_issues (sectionChecks resume st)"
  by (simp add: sectionChecks_def Let_def addIssue_sorted)

lemma bulletCount_fold_sorted:
  "sorted_issues st \<Longrightarrow>
   sorted_issues (fold (\<lambda>xp st'. if c1 xp then addIssue (r1 xp) (s1 xp) (l1 xp) st'
                                  else if c2 xp then addIssue (r2 xp) (s2 xp) (l2 xp) st'
                                  else st') xs st)"
  by (induction xs arbitrary: st) (simp_all add: addIssue_sorted)

lemma bulletCountChecks_sorted: "sorted_issues st \<Longrightarrow> sorted_issues (bulletCountChecks resume st)"
  unfolding bulletCountChecks_def by (rule bulletCount_fold_sorted)

lemma bulletQualityChecks_sorted:
  "sorted_issues st \<Longrightarrow> sorted_issues (bulletQualityChecks resume st)"
  by (simp add: bulletQualityChecks_def Let_def addIssue_sorted)

lemma dateChecks_sorted: "sorted_issues st \<Longrightarrow> sorted_issues (dateChecks resume st)"
  by (simp add: dateChecks_def Let_def addIssue_sorted)

lemma textChecks_sorted: "sorted_issues st \<Longrightarrow> sorted_issues (textChecks resume st)"
  by (simp add: textChecks_def Let_def addIssue_sorted)

lemma collectIssues_sorted: "sorted_issues (collectIssues resume)"
  unfolding collectIssues_def
  by (intro textChecks_sorted dateChecks_sorted bulletQualityChecks_sorted
      bulletCountChecks_sorted sectionChecks_sorted contactChecks_sorted)
     (simp add: sorted_issues_def)

lemma filter_all: "list_all P xs \<Longrightarrow> filter P xs = xs"
  by (induction xs) auto

lemma filter_none: "list_all P xs \<Longrightarrow> (\<And>x. P x \<Longrightarrow> \<not> Q x) \<Longrightarrow> filter Q xs = []"
  by (induction xs) auto

lemma fold_deduct:
  "fold (\<lambda>v s. if P v then s - c else s) vs (a::int) = a - c * int (length (filter P vs))"
  by (induction vs arbitrary: a) (auto simp: algebra_simps)

lemma complianceScore_formula:
  "complianceScore vs ws =
     max 0 (min 100 (100 - 20 * int (length (filter (\<lambda>v. severity (rule v) = Error) vs))
                         - 5 * int (length (filter (\<lambda>w. severity (rule w) = Warning) ws))))"
  by (simp add: complianceScore_def Let_def fold_deduct)

lemma generatorViolations_errors:
  "list_all (\<lambda>v. severity (rule v) = Error) (generatorViolations resume)"
  by (simp add: generatorViolations_def contactRule_def)

lemma generatorWarnings_no_errors:
  "list_all (\<lambda>w. severity (rule w) \<noteq> Error) (generatorWarnings resume)"
  by (simp add: generatorWarnings_def Let_def experienceRule_def skillsRule_def metricRule_def)

text \<open>An issue of the rule \<^verbatim>\<open>bullet-metrics\<close> never reaches the warnings of the comprehensive
  checker: the rule has severity \<^verbatim>\<open>info\<close>, and \<^verbatim>\<open>addIssue\<close> keeps errors and warnings only.\<close>

lemma used_rules:
  "list_all (\<lambda>i. severity (findRule i) = Warning \<longrightarrow> rule_id (findRule i) \<noteq> ''bullet-metrics'')
     [''contact-email'', ''contact-phone'', ''contact-name'', ''has-experience'', ''has-skills'',
      ''bullet-count'', ''bullet-metrics'', ''bullet-action-verbs'', ''date-format'',
      ''no-special-chars'', ''no-keyword-stuffing'']"
  by code_simp

lemma addIssue_quiet:
  assumes "severity r = Warning \<longrightarrow> rule_id r \<noteq> i" "\<not> mentionsRule i (snd st)"
  shows "\<not> mentionsRule i (snd (addIssue r s l st))"
  using assms by (auto simp: addIssue_def mentionsRule_def Let_def)

lemma fold_quiet:
  assumes "\<And>x st. \<not> mentionsRule i (snd st) \<Longrightarrow> \<not> mentionsRule i (snd (f x st))"
    "\<not> mentionsRule i (snd st)"
  shows "\<not> mentionsRule i (snd (fold f xs st))"
  using assms(2) by (induction xs arbitrary: st) (simp_all add: assms(1))

lemma collectIssues_quiet: "\<not> mentionsRule ''bullet-metrics'' (snd (collectIssues resume))"
proof -
  note r = used_rules[simplified]
  have a: "\<And>st. \<not> mentionsRule ''bullet-metrics'' (snd st)
             \<Longrightarrow> \<not> mentionsRule ''bullet-metrics'' (snd (contactChecks resume st))"
    using r by (simp add: contactChecks_def Let_def addIssue_quiet)
  have b: "\<And>st. \<not> mentionsRule ''bullet-metrics'' (snd st)
             \<Longrightarrow> \<not> mentionsRule ''bullet-metrics'' (snd (sectionChecks resume st))"
    using r by (simp add: sectionChecks_def Let_def addIssue_quiet)
  have c: "\<And>st. \<not> mentionsRule ''bullet-metrics'' (snd st)
             \<Longrightarrow> \<not> mentionsRule ''bullet-metrics'' (snd (bulletCountChecks resume st))"
    unfolding bulletCountChecks_def
    using r by (intro fold_quiet) (simp_all add: addIssue_quiet)
  have d: "\<And>st. \<not> mentionsRule ''bullet-metrics'' (snd st)
             \<Longrightarrow> \<not> mentionsRule ''bullet-metrics'' (snd (bulletQualityChecks resume st))"
    using r by (simp add: bulletQualityChecks_def Let_def addIssue_quiet)
  have e: "\<And>st. \<not> mentionsRule ''bullet-metrics'' (snd st)
             \<Longrightarrow> \<not> mentionsRule ''bullet-metrics'' (snd (dateChecks resume st))"
    using r by (simp add: dateChecks_def Let_def addIssue_quiet)
  have f: "\<And>st. \<not> mentionsRule ''bullet-metrics'' (snd st)
             \<Longrightarrow> \<not> mentionsRule ''bullet-metrics'' (snd (textChecks resume st))"
    using r by (simp add: textChecks_def Let_def addIssue_quiet)
  have "\<not> mentionsRule ''bullet-metrics'' (snd (([], []) :: issues))"
    by (simp add: mentionsRule_def)
  then show ?thesis
    unfolding collectIssues_def by (intro f e d c b a)
qed

lemma warnings_never_mention_metrics:
  "\<not> mentionsRule ''bullet-metrics'' (warnings (checkATSCompliance resume))"
  using collectIssues_quiet[of resume] by (simp add: checkATSCompliance_def Let_def)

lemma noMetrics_issues:
  "collectIssues noMetricsResume
     = ([\<lparr> rule = \<lparr> rule_id = ''contact-email'', rule_name = ''Email Required'',
                     description = ''Resume must include a valid email address'',
                     severity = Error \<rparr>,
           location = None, suggestion = Some ''Add a professional email address'' \<rparr>], [])"
  by code_simp

lemma noMetrics_rate: "metricRate noMetricsResume = 0"
  by code_simp

lemma noMetrics_generator:
  "map (\<lambda>w. rule_id (rule w)) (generatorWarnings noMetricsResume) = [''bullet-metrics'']"
  by code_simp

text \<open>
  Claim C1 says that a metric rate below 0.4 puts a warning of the rule \<^verbatim>\<open>bullet-metrics\<close>
  (Quantified Achievements) into the warnings of the comprehensive checker. On the resume
  without an email address whose three bullets hold no number, the rate is 0 and the code
  calls \<^verbatim>\<open>addIssue\<close> with that rule, but the report has no warning at all: one error, score
  80. The generator's own checker does list the rule of that name among its warnings on the
  same resume.
\<close>

theorem metrics_issue_dropped:
  "metricRate noMetricsResume < 4 / 10
   \<and> warnings (checkATSCompliance noMetricsResume) = []
   \<and> \<not> mentionsRule ''bullet-metrics'' (warnings (checkATSCompliance noMetricsResume))
   \<and> map (\<lambda>v. rule_id (rule v)) (violations (checkATSCompliance noMetricsResume)) = [''contact-email'']
   \<and> score (checkATSCompliance noMetricsResume) = 80
   \<and> \<not> passed (checkATSCompliance noMetricsResume)
   \<and> map (\<lambda>w. rule_id (rule w)) (warnings (generator_checkATSCompliance noMetricsResume))
       = [''bullet-metrics'']"
  using noMetrics_generator
  by (simp add: checkATSCompliance_def generator_checkATSCompliance_def Let_def noMetrics_issues
      noMetrics_rate mentionsRule_def complianceScore_def)

text \<open>
  Claim C2. In the report of either checker (the comprehensive one and the generator's own),
  \<^verbatim>\<open>passed\<close> is true if and only if the report holds no violation whose rule has severity
  \<^verbatim>\<open>error\<close>; the warnings never hold such a rule, so the same is true of both lists together.
\<close>

theorem passed_iff_no_error:
  "(passed (checkATSCompliance resume)
      \<longleftrightarrow> length (filter isError (violations (checkATSCompliance resume))) = 0)
   \<and> (passed (checkATSCompliance resume)
      \<longleftrightarrow> filter isError (violations (checkATSCompliance resume)
                            @ warnings (checkATSCompliance resume)) = [])
   \<and> (passed (generator_checkATSCompliance resume)
      \<longleftrightarrow> length (filter isError (violations (generator_checkATSCompliance resume))) = 0)
   \<and> (passed (generator_checkATSCompliance resume)
      \<longleftrightarrow> filter isError (violations (generator_checkATSCompliance resume)
                            @ warnings (generator_checkATSCompliance resume)) = [])"
proof -
  have w: "filter (\<lambda>v. severity (rule v) = Error) (snd (collectIssues resume)) = []"
    using collectIssues_sorted[of resume]
    by (auto simp: sorted_issues_def intro: filter_none)
  have gv: "filter (\<lambda>v. severity (rule v) = Error) (generatorViolations resume)
              = generatorViolations resume"
    by (rule filter_all) (rule generatorViolations_errors)
  have gw: "filter (\<lambda>v. severity (rule v) = Error) (generatorWarnings resume) = []"
    using generatorWarnings_no_errors[of resume]
    by (auto intro: filter_none)
  show ?thesis
    by (simp add: checkATSCompliance_def generator_checkATSCompliance_def Let_def w gv gw
        isError_def [abs_def])
qed

text \<open>
  Claim C3. In the report of either checker the score is 100, less 20 for each violation of
  severity \<^verbatim>\<open>error\<close> and 5 for each warning, clamped to the range 0 to 100. So the score lies
  between 0 and 100, and it does not go up when one more violation or one more warning is
  added.
\<close>

theorem compliance_score_formula:
  "score (checkATSCompliance resume)
     = max 0 (min 100 (100 - 20 * int (length (filter isError (violations (checkATSCompliance resume))))
                           - 5 * int (length (warnings (checkATSCompliance resume)))))
   \<and> score (generator_checkATSCompliance resume)
     = max 0 (min 100 (100 - 20 * int (length (filter isError
                                                (violations (generator_checkATSCompliance resume))))
                           - 5 * int (length (warnings (generator_checkATSCompliance resume)))))
   \<and> 0 \<le> score (checkATSCompliance resume) \<and> score (checkATSCompliance resume) \<le> 100
   \<and> 0 \<le> score (generator_checkATSCompliance resume)
   \<and> score (generator_checkATSCompliance resume) \<le> 100
   \<and> complianceScore (vs @ [v]) ws \<le> complianceScore vs ws
   \<and> complianceScore vs (ws @ [w]) \<le> complianceScore vs ws
   \<and> generatorScore (errorCount + 1) warningCount \<le> generatorScore errorCount warningCount
   \<and> generatorScore errorCount (warningCount + 1) \<le> generatorScore errorCount warningCount"
proof -
  have ws: "filter (\<lambda>w. severity (rule w) = Warning) (snd (collectIssues resume))
              = snd (collectIssues resume)"
    using collectIssues_sorted[of resume] by (simp add: sorted_issues_def filter_all)
  have a: "score (checkATSCompliance resume)
     = max 0 (min 100 (100 - 20 * int (length (filter isError (violations (checkATSCompliance resume))))
                           - 5 * int (length (warnings (checkATSCompliance resume)))))"
    by (simp add: checkATSCompliance_def Let_def complianceScore_formula ws isError_def [abs_def])
  have gv: "filter (\<lambda>v. severity (rule v) = Error) (generatorViolations resume)
              = generatorViolations resume"
    by (rule filter_all) (rule generatorViolations_errors)
  have b: "score (generator_checkATSCompliance resume)
     = max 0 (min 100 (100 - 20 * int (length (filter isError
                                                (violations (generator_checkATSCompliance resume))))
                           - 5 * int (length (warnings (generator_checkATSCompliance resume)))))"
    by (simp add: generator_checkATSCompliance_def Let_def generatorScore_def gv
        isError_def [abs_def])
  have c: "0 \<le> score (checkATSCompliance resume) \<and> score (checkATSCompliance resume) \<le> 100"
    unfolding a by simp
  have d: "0 \<le> score (generator_checkATSCompliance resume)
           \<and> score (generator_checkATSCompliance resume) \<le> 100"
    unfolding b by simp
  have e: "complianceScore (vs @ [v]) ws \<le> complianceScore vs ws"
    by (simp add: complianceScore_formula)
  have f: "complianceScore vs (ws @ [w]) \<le> complianceScore vs ws"
    by (simp add: complianceScore_formula)
  have g: "generatorScore (errorCount + 1) warningCount \<le> generatorScore errorCount warningCount"
    by (simp add: generatorScore_def)
  have h: "generatorScore errorCount (warningCount + 1) \<le> generatorScore errorCount warningCount"
    by (simp add: generatorScore_def)
  from a b c d e f g h show ?thesis by blast
qed

subsection \<open>JD match report\<close>






























end
